theory Spec2Isabelle
  imports Complex_Main "HOL-Library.AList"
begin

section \<open>The query result cache (services/cache\_service.py, class QueryCache)\<close>

text \<open>
  Modelling conventions.
  \<^item> A Python \<open>dict\<close> keeps its keys in insertion order; it is an association list
    with \<open>AList.update\<close> for \<open>d[k] = v\<close> (an existing key keeps its position, a new key
    goes to the end), \<open>AList.delete\<close> for \<open>del d[k]\<close>, \<open>map_of\<close> for lookup and
    \<open>length\<close> for \<open>len\<close>. A dict never holds a key twice, which is the
    representation part of \<open>QueryCache_inv\<close> below.
  \<^item> \<open>time.time()\<close> returns a float; readings of the clock are reals, and every
    reading a method takes is a parameter of its own, named after the place that reads it.
    Sums and differences of readings are those of the reals (the rounding of a float sum
    is not modelled). Adding an \<open>int\<close> to a reading converts it to a float first, which
    raises \<open>OverflowError\<close> for an \<open>int\<close> outside the range of a float; that case is
    \<open>int_too_large_for_float\<close>, and \<open>QueryCache_get_call\<close> and \<open>QueryCache_set_call\<close>
    below are the two methods with it.
  \<^item> Python's \<open>int\<close> is \<open>int\<close>; the cached payload (\<open>Any\<close>) is a type variable.
\<close>

record 'v cache_item =
  result :: 'v
  timestamp :: real
  hits :: int
  last_hit_time :: real

record 'v QueryCache =
  cache :: "(string \<times> 'v cache_item) list"
  expiration_times :: "(string \<times> real) list"
  lru_keys :: "string list"
  max_cache_size :: int
  default_ttl :: int

text \<open>\<open>__init__\<close>: the two settings are \<open>settings.MAX_CACHE_SIZE\<close> and
  \<open>settings.CACHE_EXPIRY\<close>, integers read from the environment.\<close>

definition QueryCache_init :: "int \<Rightarrow> int \<Rightarrow> 'v QueryCache" where
  "QueryCache_init MAX_CACHE_SIZE CACHE_EXPIRY =
     \<lparr>cache = [], expiration_times = [], lru_keys = [],
      max_cache_size = MAX_CACHE_SIZE, default_ttl = CACHE_EXPIRY\<rparr>"

text \<open>\<open>key in d\<close> for a dict \<open>d\<close>.\<close>

definition has_key :: "('k \<times> 'a) list \<Rightarrow> 'k \<Rightarrow> bool" where
  "has_key d k = (map_of d k \<noteq> None)"

text \<open>\<open>_remove_item\<close>: three guarded deletions.\<close>

definition QueryCache_remove_item :: "'v QueryCache \<Rightarrow> string \<Rightarrow> 'v QueryCache" where
  "QueryCache_remove_item c cache_key =
     (let c1 = (if has_key (cache c) cache_key
                then c\<lparr>cache := AList.delete cache_key (cache c)\<rparr> else c);
          c2 = (if has_key (expiration_times c1) cache_key
                then c1\<lparr>expiration_times := AList.delete cache_key (expiration_times c1)\<rparr>
                else c1)
      in if cache_key \<in> set (lru_keys c2)
         then c2\<lparr>lru_keys := remove1 cache_key (lru_keys c2)\<rparr> else c2)"

text \<open>\<open>_remove_lru_item\<close>: \<open>lru_keys.pop(0)\<close>, then \<open>_remove_item\<close> of the popped key.\<close>

definition QueryCache_remove_lru_item :: "'v QueryCache \<Rightarrow> 'v QueryCache" where
  "QueryCache_remove_lru_item c =
     (case lru_keys c of
        [] \<Rightarrow> c
      | lru_key # rest \<Rightarrow> QueryCache_remove_item (c\<lparr>lru_keys := rest\<rparr>) lru_key)"

text \<open>The move to the tail of the LRU list that \<open>get\<close> and \<open>set\<close> share.\<close>

definition lru_touch :: "string list \<Rightarrow> string \<Rightarrow> string list" where
  "lru_touch ks cache_key =
     (if cache_key \<in> set ks then remove1 cache_key ks else ks) @ [cache_key]"

text \<open>
  \<open>get\<close>. The clock is read for the default of \<open>expiration_times.get\<close> (\<open>t_default\<close>,
  Python evaluates the default eagerly), for the expiry test (\<open>t_check\<close>) and for
  \<open>last_hit_time\<close> (\<open>t_hit\<close>). The result is the returned pair and the new state.
\<close>

definition QueryCache_get ::
  "'v QueryCache \<Rightarrow> real \<Rightarrow> real \<Rightarrow> real \<Rightarrow> string \<Rightarrow> ('v option \<times> bool) \<times> 'v QueryCache" where
  "QueryCache_get c t_default t_check t_hit cache_key =
     (case map_of (cache c) cache_key of
        None \<Rightarrow> ((None, False), c)
      | Some item \<Rightarrow>
          (let expiry = (case map_of (expiration_times c) cache_key of
                           Some e \<Rightarrow> e
                         | None \<Rightarrow> t_default + real_of_int (default_ttl c))
           in if t_check < expiry
              then (let item' = item\<lparr>hits := hits item + 1, last_hit_time := t_hit\<rparr>
                    in ((Some (result item'), True),
                        c\<lparr>cache := AList.update cache_key item' (cache c),
                          lru_keys := lru_touch (lru_keys c) cache_key\<rparr>))
              else ((None, False), QueryCache_remove_item c cache_key)))"

text \<open>
  \<open>set\<close> (named \<open>QueryCache_set\<close>), when it returns. The clock is read for the expiry
  (\<open>t_expiry\<close>), for \<open>timestamp\<close> (\<open>t_stamp\<close>) and for \<open>last_hit_time\<close> (\<open>t_hit\<close>).
  The capacity test looks at \<open>len(self.cache)\<close> only; it does not ask whether the key
  is present. The call that raises at line 74 is in \<open>QueryCache_set_call\<close>.
\<close>

definition QueryCache_set ::
  "'v QueryCache \<Rightarrow> real \<Rightarrow> real \<Rightarrow> real \<Rightarrow> string \<Rightarrow> 'v \<Rightarrow> int option \<Rightarrow> 'v QueryCache" where
  "QueryCache_set c t_expiry t_stamp t_hit cache_key res ttl =
     (let c1 = (if int (length (cache c)) \<ge> max_cache_size c
                then QueryCache_remove_lru_item c else c);
          expiry_time = t_expiry + real_of_int (case ttl of Some n \<Rightarrow> n | None \<Rightarrow> default_ttl c1);
          c2 = c1\<lparr>cache := AList.update cache_key
                         \<lparr>result = res, timestamp = t_stamp, hits = 1, last_hit_time = t_hit\<rparr>
                         (cache c1),
                  expiration_times := AList.update cache_key expiry_time (expiration_times c1)\<rparr>
      in c2\<lparr>lru_keys := lru_touch (lru_keys c2) cache_key\<rparr>)"

text \<open>\<open>clear\<close>.\<close>

definition QueryCache_clear :: "'v QueryCache \<Rightarrow> 'v QueryCache" where
  "QueryCache_clear c = c\<lparr>cache := [], expiration_times := [], lru_keys := []\<rparr>"

text \<open>
  \<open>cleanup_expired\<close>: one reading of the clock, the keys of \<open>expiration_times\<close> whose
  expiry the reading has passed (\<open>current_time > v\<close>), \<open>_remove_item\<close> for each of them
  in order, and the length of that list as the result.
\<close>

definition expired_keys :: "'v QueryCache \<Rightarrow> real \<Rightarrow> string list" where
  "expired_keys c current_time =
     map fst (filter (\<lambda>(k, v). current_time > v) (expiration_times c))"

definition QueryCache_cleanup_expired :: "'v QueryCache \<Rightarrow> real \<Rightarrow> int \<times> 'v QueryCache" where
  "QueryCache_cleanup_expired c current_time =
     (let ks = expired_keys c current_time
      in (int (length ks), fold (\<lambda>k c'. QueryCache_remove_item c' k) ks c))"

text \<open>
  The conversion of an \<open>int\<close> to a float, in \<open>time.time() + n\<close>: the \<open>int\<close> is rounded to
  the nearest float, and Python raises \<open>OverflowError\<close> when that is beyond the largest
  one, that is from \<open>2^1024 - 2^970\<close> on in absolute value. The text is \<open>str\<close> of the
  exception.
\<close>

definition int_too_large_for_float :: "int \<Rightarrow> bool" where
  "int_too_large_for_float n = (\<bar>n\<bar> \<ge> 2 ^ 1024 - 2 ^ 970)"

definition OverflowError :: string where
  "OverflowError = ''int too large to convert to float''"

text \<open>
  A call of \<open>get\<close>, with the exception it can raise: the default of
  \<open>expiration_times.get\<close> at line 40 is evaluated whenever the key is in the cache, and
  \<open>time.time() + self.default_ttl\<close> raises for a default TTL outside the float range,
  before anything is changed. The result is the state left and \<open>Inl\<close> of the exception's
  text, or \<open>Inr\<close> of the returned pair.
\<close>

definition QueryCache_get_call ::
  "'v QueryCache \<Rightarrow> real \<Rightarrow> real \<Rightarrow> real \<Rightarrow> string \<Rightarrow>
   'v QueryCache \<times> (string + ('v option \<times> bool))" where
  "QueryCache_get_call c t_default t_check t_hit cache_key =
     (if has_key (cache c) cache_key \<and> int_too_large_for_float (default_ttl c)
      then (c, Inl OverflowError)
      else (snd (QueryCache_get c t_default t_check t_hit cache_key),
            Inr (fst (QueryCache_get c t_default t_check t_hit cache_key))))"

text \<open>
  A call of \<open>set\<close>, with the exception it can raise: line 74 adds the TTL (or the default
  TTL) to the clock reading after the eviction of lines 69 to 71 has run, and raises for
  a TTL outside the float range; the entry is then not stored.
\<close>

definition QueryCache_set_call ::
  "'v QueryCache \<Rightarrow> real \<Rightarrow> real \<Rightarrow> real \<Rightarrow> string \<Rightarrow> 'v \<Rightarrow> int option \<Rightarrow>
   'v QueryCache \<times> (string + unit)" where
  "QueryCache_set_call c t_expiry t_stamp t_hit cache_key res ttl =
     (if int_too_large_for_float (case ttl of Some n \<Rightarrow> n | None \<Rightarrow> default_ttl c)
      then (if int (length (cache c)) \<ge> max_cache_size c
            then QueryCache_remove_lru_item c else c, Inl OverflowError)
      else (QueryCache_set c t_expiry t_stamp t_hit cache_key res ttl, Inr ()))"

subsection \<open>Sequences of cache operations, and the consistency of the three structures\<close>

text \<open>One public operation of the cache with its arguments and clock readings
  (\<open>get_stats\<close> only reads and is left out).\<close>

datatype 'v cache_op =
    Get real real real string
  | Set real real real string 'v "int option"
  | CleanupExpired real
  | Clear

fun apply_op :: "'v QueryCache \<Rightarrow> 'v cache_op \<Rightarrow> 'v QueryCache" where
  "apply_op c (Get t_default t_check t_hit k) = snd (QueryCache_get c t_default t_check t_hit k)"
| "apply_op c (Set t_expiry t_stamp t_hit k v ttl) = QueryCache_set c t_expiry t_stamp t_hit k v ttl"
| "apply_op c (CleanupExpired now) = snd (QueryCache_cleanup_expired c now)"
| "apply_op c Clear = QueryCache_clear c"

definition run_ops :: "'v QueryCache \<Rightarrow> 'v cache_op list \<Rightarrow> 'v QueryCache" where
  "run_ops c ops = foldl apply_op c ops"

text \<open>
  What every operation keeps true of a cache that started empty: no dict holds a key
  twice, the LRU list holds no key twice, and the three structures hold the same keys.
\<close>

definition QueryCache_inv :: "'v QueryCache \<Rightarrow> bool" where
  "QueryCache_inv c =
     (distinct (map fst (cache c)) \<and> distinct (map fst (expiration_times c)) \<and>
      distinct (lru_keys c) \<and>
      set (lru_keys c) = set (map fst (cache c)) \<and>
      set (map fst (expiration_times c)) = set (map fst (cache c)))"

definition within_capacity :: "'v QueryCache \<Rightarrow> bool" where
  "within_capacity c = (QueryCache_inv c \<and> int (length (cache c)) \<le> max_cache_size c)"

section \<open>The cache key (generate\_cache\_key, main.py and services/cache\_service.py)\<close>

text \<open>
  A Python \<open>str\<close> is a sequence of code points; a \<open>char\<close> here is a code point below
  256 (ASCII and the Latin-1 block), on which \<open>str.split\<close>, \<open>str.strip\<close>,
  \<open>str.lower\<close> and \<open>str.upper\<close> act as follows.
  \<^item> Whitespace (\<open>str.isspace\<close>, used by \<open>split()\<close> and \<open>strip()\<close>): 9 to 13, 28 to 32,
    133 and 160.
  \<^item> \<open>lower\<close> moves 65..90 and 192..222 (without 215) up by 32.
  \<^item> \<open>upper\<close> moves 97..122 and 224..254 (without 247) down by 32 and turns 223 into
    \<open>SS\<close>; 181 and 255 have their upper-case forms above 255 and stay as they are here,
    which leaves every comparison with an ASCII prefix as Python decides it.
\<close>

definition isspace :: "char \<Rightarrow> bool" where
  "isspace c = (let n = (of_char c :: nat)
                in (9 \<le> n \<and> n \<le> 13) \<or> (28 \<le> n \<and> n \<le> 32) \<or> n = 133 \<or> n = 160)"

definition lower_char :: "char \<Rightarrow> char" where
  "lower_char c = (let n = (of_char c :: nat)
                   in if (65 \<le> n \<and> n \<le> 90) \<or> (192 \<le> n \<and> n \<le> 222 \<and> n \<noteq> 215)
                      then char_of (n + 32) else c)"

definition upper_char :: "char \<Rightarrow> string" where
  "upper_char c = (let n = (of_char c :: nat)
                   in if n = 223 then ''SS''
                      else if (97 \<le> n \<and> n \<le> 122) \<or> (224 \<le> n \<and> n \<le> 254 \<and> n \<noteq> 247)
                      then [char_of (n - 32)] else [c])"

definition lower :: "string \<Rightarrow> string" where
  "lower s = map lower_char s"

definition upper :: "string \<Rightarrow> string" where
  "upper s = concat (map upper_char s)"

text \<open>\<open>s.split()\<close>: the maximal runs of non-whitespace, in order; \<open>w\<close> is the word being
  read.\<close>

fun split_from :: "string \<Rightarrow> string \<Rightarrow> string list" where
  "split_from w [] = (if w = [] then [] else [w])"
| "split_from w (c # cs) =
     (if isspace c then (if w = [] then split_from [] cs else w # split_from [] cs)
      else split_from (w @ [c]) cs)"

definition split :: "string \<Rightarrow> string list" where
  "split s = split_from [] s"

text \<open>\<open>" ".join(ws)\<close>.\<close>

fun join_space :: "string list \<Rightarrow> string" where
  "join_space [] = []"
| "join_space [w] = w"
| "join_space (w # ws) = w @ '' '' @ join_space ws"

text \<open>\<open>s.strip()\<close> and \<open>s.startswith(p)\<close>.\<close>

definition strip :: "string \<Rightarrow> string" where
  "strip s = rev (dropWhile isspace (rev (dropWhile isspace s)))"

definition startswith :: "string \<Rightarrow> string \<Rightarrow> bool" where
  "startswith s p = (take (length p) s = p)"

text \<open>The truth value of \<open>params\<close> (\<open>Optional[Dict[str, Any]]\<close>): \<open>None\<close> and the empty
  dict are false.\<close>

definition truthy :: "(string \<times> 'p) list option \<Rightarrow> bool" where
  "truthy params = (case params of None \<Rightarrow> False | Some [] \<Rightarrow> False | Some (x # xs) \<Rightarrow> True)"

text \<open>
  \<open>generate_cache_key\<close> (the two copies in the source are the same text). The library
  calls are parameters: \<open>md5_hex\<close> is \<open>hashlib.md5(_.encode()).hexdigest()\<close> and
  \<open>dumps\<close> is \<open>json.dumps(_, sort_keys=True)\<close>, called when \<open>params\<close> is true. Both can
  raise (\<open>encode\<close> on a lone surrogate, \<open>dumps\<close> on a value it cannot serialise): they
  return \<open>Inl\<close> of the exception's text then, and so does \<open>generate_cache_key\<close>.
\<close>

definition query_normalized :: "string \<Rightarrow> string" where
  "query_normalized query = lower (join_space (split query))"

definition params_str ::
  "((string \<times> 'p) list \<Rightarrow> string + string) \<Rightarrow> (string \<times> 'p) list option \<Rightarrow> string + string" where
  "params_str dumps params =
     (case params of None \<Rightarrow> Inr [] | Some ps \<Rightarrow> if truthy params then dumps ps else Inr [])"

text \<open>The f-string \<open>f"{db_name}:{query_normalized}:{params_str}"\<close>.\<close>

definition key_data :: "string \<Rightarrow> string \<Rightarrow> string \<Rightarrow> string" where
  "key_data db_name query ps = db_name @ '':'' @ query_normalized query @ '':'' @ ps"

definition generate_cache_key ::
  "(string \<Rightarrow> string + string) \<Rightarrow> ((string \<times> 'p) list \<Rightarrow> string + string) \<Rightarrow>
   string \<Rightarrow> (string \<times> 'p) list option \<Rightarrow> string \<Rightarrow> string + string" where
  "generate_cache_key md5_hex dumps query params db_name =
     (case params_str dumps params of
        Inl e \<Rightarrow> Inl e
      | Inr ps \<Rightarrow> md5_hex (key_data db_name query ps))"

text \<open>
  The wording of the specification, for comparison with the code. Collapsing every run
  of whitespace of a text to one space (\<open>prev\<close> says that the character before was
  whitespace). And a change of case: the letters with one upper-case and one lower-case
  form are \<open>A\<close> to \<open>Z\<close> with \<open>a\<close> to \<open>z\<close> and, in Latin-1, 192 to 222 (without the
  multiplication sign 215) with 224 to 254 (without the division sign 247), 32 apart;
  \<open>case_variant q q'\<close> says that \<open>q'\<close> is \<open>q\<close> with some of these letters in their
  other case.
\<close>

fun collapse_from :: "bool \<Rightarrow> string \<Rightarrow> string" where
  "collapse_from prev [] = []"
| "collapse_from prev (c # cs) =
     (if isspace c then (if prev then collapse_from True cs else CHR '' '' # collapse_from True cs)
      else c # collapse_from False cs)"

definition collapse_whitespace :: "string \<Rightarrow> string" where
  "collapse_whitespace s = collapse_from False s"

definition is_upper_letter :: "char \<Rightarrow> bool" where
  "is_upper_letter c = (let n = (of_char c :: nat)
                        in (65 \<le> n \<and> n \<le> 90) \<or> (192 \<le> n \<and> n \<le> 214) \<or> (216 \<le> n \<and> n \<le> 222))"

definition case_pair :: "char \<Rightarrow> char \<Rightarrow> bool" where
  "case_pair c c' =
     (c' = c \<or> (is_upper_letter c \<and> (of_char c' :: nat) = of_char c + 32)
             \<or> (is_upper_letter c' \<and> (of_char c :: nat) = of_char c' + 32))"

definition case_variant :: "string \<Rightarrow> string \<Rightarrow> bool" where
  "case_variant q q' = list_all2 case_pair q q'"

section \<open>Query execution (main.py)\<close>

text \<open>
  A row of a result is \<open>dict(row)\<close>: column names with SQLite values; the result of a
  query is a list of rows, and this list is the payload that the cache stores.
\<close>

datatype sql_value = SqlNull | SqlInteger int | SqlReal real | SqlText string | SqlBlob string

type_synonym row = "(string \<times> sql_value) list"

text \<open>
  An entry of \<open>query_results\<close>: a dict with the key \<open>status\<close> and, depending on the
  writer, \<open>result\<close>, \<open>error\<close>, \<open>cached\<close> and \<open>execution_time\<close>; a key that is absent
  is \<open>None\<close> here.
\<close>

record task =
  status :: string
  task_result :: "row list option"
  task_error :: "string option"
  cached :: "bool option"
  execution_time :: "real option"

text \<open>
  The module's state: the cache, \<open>query_results\<close>, \<open>db_connections\<close>,
  \<open>db_extensions\<close> and, as \<open>world\<close>, everything behind the library calls (the
  database files, the SQLite engine, the extensions directory).
\<close>

record ('w, 'h) app =
  query_cache :: "row list QueryCache"
  query_results :: "string \<rightharpoonup> task"
  db_connections :: "string \<rightharpoonup> 'h"
  db_extensions :: "string \<rightharpoonup> string list"
  world :: 'w

text \<open>
  The library calls, as parameters. One that can raise returns \<open>Inl\<close> of the exception's
  \<open>str\<close>; each returns the world it leaves behind.
  \<^item> \<open>md5_hex\<close>, \<open>json_dumps\<close>: as for \<open>generate_cache_key\<close>.
  \<^item> \<open>connect\<close>: lines 74 to 87 of \<open>get_db_connection\<close> for a database name and the
    \<open>load_extensions\<close> flag (\<open>sqlean.connect\<close>, \<open>enable_load_extension\<close>,
    \<open>load_all_extensions\<close>, the WAL pragma), giving the handle.
  \<^item> \<open>listdir_extensions\<close>: lines 89 to 92, the extension files listed for the handle.
  \<^item> \<open>cursor_execute\<close>: \<open>conn.cursor()\<close> and \<open>cursor.execute(query, params)\<close>, or
    \<open>cursor.execute(query)\<close> when the parameters are \<open>None\<close> here, giving the cursor.
  \<^item> \<open>fetchall\<close>: \<open>[dict(row) for row in cursor.fetchall()]\<close>.
  \<^item> \<open>rowcount\<close>: \<open>cursor.rowcount\<close>.
  \<^item> \<open>commit\<close>: \<open>conn.commit()\<close>.
\<close>

record ('w, 'h, 'c, 'p) library =
  md5_hex :: "string \<Rightarrow> string + string"
  json_dumps :: "(string \<times> 'p) list \<Rightarrow> string + string"
  connect :: "'w \<Rightarrow> string \<Rightarrow> bool \<Rightarrow> 'w \<times> (string + 'h)"
  listdir_extensions :: "'w \<Rightarrow> 'w \<times> (string + string list)"
  cursor_execute :: "'w \<Rightarrow> 'h \<Rightarrow> string \<Rightarrow> (string \<times> 'p) list option \<Rightarrow> 'w \<times> (string + 'c)"
  fetchall :: "'w \<Rightarrow> 'c \<Rightarrow> 'w \<times> (string + row list)"
  rowcount :: "'c \<Rightarrow> int"
  commit :: "'w \<Rightarrow> 'h \<Rightarrow> 'w \<times> (string + unit)"

text \<open>
  The readings of the clock during one \<open>execute_query\<close>, by the place that reads:
  \<open>start_time\<close>, the three of \<open>QueryCache.get\<close>, the three of \<open>QueryCache.set\<close>, and
  the one that closes the call (line 156, 165 or 171; one call reaches one of them).
\<close>

record clock =
  t_start :: real
  t_get_default :: real
  t_get_check :: real
  t_get_hit :: real
  t_set_expiry :: real
  t_set_stamp :: real
  t_set_hit :: real
  t_end :: real

text \<open>
  \<open>get_db_connection\<close>: the handle on record, or a new one that is put on record with
  its extension files. The result is the state and the handle, or the exception's text.
\<close>

definition get_db_connection ::
  "('w, 'h, 'c, 'p) library \<Rightarrow> ('w, 'h) app \<Rightarrow> string \<Rightarrow> bool \<Rightarrow> ('w, 'h) app \<times> (string + 'h)" where
  "get_db_connection lib s db_name load_extensions =
     (case db_connections s db_name of
        Some conn \<Rightarrow> (s, Inr conn)
      | None \<Rightarrow>
          (case connect lib (world s) db_name load_extensions of
             (w1, Inl e) \<Rightarrow> (s\<lparr>world := w1\<rparr>, Inl e)
           | (w1, Inr conn) \<Rightarrow>
               (let s1 = s\<lparr>world := w1, db_connections := (db_connections s)(db_name \<mapsto> conn)\<rparr>
                in case listdir_extensions lib w1 of
                     (w2, Inl e) \<Rightarrow> (s1\<lparr>world := w2\<rparr>, Inl e)
                   | (w2, Inr exts) \<Rightarrow>
                       (s1\<lparr>world := w2, db_extensions := (db_extensions s1)(db_name \<mapsto> exts)\<rparr>,
                        Inr conn))))"

text \<open>The two tests on the query text (lines 145 and 149).\<close>

definition is_select :: "string \<Rightarrow> bool" where
  "is_select query = startswith (upper (strip query)) ''SELECT''"

definition is_metadata :: "string \<Rightarrow> bool" where
  "is_metadata query = startswith (upper (strip query)) ''SELECT SQLITE_''"

text \<open>The three dicts that \<open>execute_query\<close> writes into \<open>query_results\<close>.\<close>

definition completed_task :: "row list option \<Rightarrow> bool \<Rightarrow> real \<Rightarrow> task" where
  "completed_task res c t =
     \<lparr>status = ''completed'', task_result = res, task_error = None,
      cached = Some c, execution_time = Some t\<rparr>"

definition error_task :: "string \<Rightarrow> real \<Rightarrow> task" where
  "error_task e t =
     \<lparr>status = ''error'', task_result = None, task_error = Some e,
      cached = None, execution_time = Some t\<rparr>"

definition pending_task :: task where
  "pending_task =
     \<lparr>status = ''pending'', task_result = None, task_error = None,
      cached = None, execution_time = None\<rparr>"

definition put_result :: "('w, 'h) app \<Rightarrow> string \<Rightarrow> task \<Rightarrow> ('w, 'h) app" where
  "put_result s query_id t = s\<lparr>query_results := (query_results s)(query_id \<mapsto> t)\<rparr>"

text \<open>
  The body of the \<open>try\<close> of \<open>execute_query\<close>: the state it leaves, and \<open>Inl\<close> of the
  exception's text when a call in it raised, \<open>Inr ()\<close> when it ran to its end. The calls
  that can raise are, in order, \<open>generate_cache_key\<close>, \<open>query_cache.get\<close>,
  \<open>get_db_connection\<close>, \<open>cursor.execute\<close>, then \<open>fetchall\<close> and \<open>query_cache.set\<close> for a
  read, or \<open>commit\<close> for any other statement.
\<close>

definition execute_query_body ::
  "('w, 'h, 'c, 'p) library \<Rightarrow> clock \<Rightarrow> ('w, 'h) app \<Rightarrow> string \<Rightarrow> string \<Rightarrow>
   (string \<times> 'p) list option \<Rightarrow> string \<Rightarrow> int option \<Rightarrow> bool \<Rightarrow> ('w, 'h) app \<times> (string + unit)" where
  "execute_query_body lib clk s query_id query params db_name cache_ttl force_refresh =
     (case generate_cache_key (md5_hex lib) (json_dumps lib) query params db_name of
        Inl e \<Rightarrow> (s, Inl e)
      | Inr cache_key \<Rightarrow>
     (case (if \<not> force_refresh
            then QueryCache_get_call (query_cache s) (t_get_default clk) (t_get_check clk)
                   (t_get_hit clk) cache_key
            else (query_cache s, Inr (None, False))) of
        (qc, Inl e) \<Rightarrow> (s\<lparr>query_cache := qc\<rparr>, Inl e)
      | (qc, Inr (cached_result, hit)) \<Rightarrow>
     (let s0 = s\<lparr>query_cache := qc\<rparr>
      in if \<not> force_refresh \<and> hit
         then (put_result s0 query_id (completed_task cached_result True 0), Inr ())
         else
           (case get_db_connection lib s0 db_name True of
              (s1, Inl e) \<Rightarrow> (s1, Inl e)
            | (s1, Inr conn) \<Rightarrow>
                (case cursor_execute lib (world s1) conn query
                        (if truthy params then params else None) of
                   (w2, Inl e) \<Rightarrow> (s1\<lparr>world := w2\<rparr>, Inl e)
                 | (w2, Inr cursor) \<Rightarrow>
                     (if is_select query
                      then (case fetchall lib w2 cursor of
                              (w3, Inl e) \<Rightarrow> (s1\<lparr>world := w3\<rparr>, Inl e)
                            | (w3, Inr results) \<Rightarrow>
                                (let s3 = s1\<lparr>world := w3\<rparr>
                                 in case (if \<not> is_metadata query
                                          then QueryCache_set_call (query_cache s3)
                                                 (t_set_expiry clk) (t_set_stamp clk)
                                                 (t_set_hit clk) cache_key results cache_ttl
                                          else (query_cache s3, Inr ())) of
                                      (qc', Inl e) \<Rightarrow> (s3\<lparr>query_cache := qc'\<rparr>, Inl e)
                                    | (qc', Inr u) \<Rightarrow>
                                        (put_result (s3\<lparr>query_cache := qc'\<rparr>) query_id
                                           (completed_task (Some results) False
                                              (t_end clk - t_start clk)),
                                         Inr ())))
                      else (case commit lib w2 conn of
                              (w3, Inl e) \<Rightarrow> (s1\<lparr>world := w3\<rparr>, Inl e)
                            | (w3, Inr u) \<Rightarrow>
                                (put_result (s1\<lparr>world := w3\<rparr>) query_id
                                   (completed_task
                                      (Some [[(''rows_affected'', SqlInteger (rowcount lib cursor))]])
                                      False (t_end clk - t_start clk)),
                                 Inr ()))))))))"

text \<open>\<open>execute_query\<close>: the body, and the \<open>except Exception\<close> clause that turns an
  exception into an error entry. The function returns in both cases.\<close>

definition execute_query ::
  "('w, 'h, 'c, 'p) library \<Rightarrow> clock \<Rightarrow> ('w, 'h) app \<Rightarrow> string \<Rightarrow> string \<Rightarrow>
   (string \<times> 'p) list option \<Rightarrow> string \<Rightarrow> int option \<Rightarrow> bool \<Rightarrow> ('w, 'h) app" where
  "execute_query lib clk s query_id query params db_name cache_ttl force_refresh =
     (case execute_query_body lib clk s query_id query params db_name cache_ttl force_refresh of
        (s', Inr u) \<Rightarrow> s'
      | (s', Inl e) \<Rightarrow> put_result s' query_id (error_task e (t_end clk - t_start clk)))"

text \<open>
  The response of the two endpoints (\<open>QueryResponse\<close>), built from an entry of
  \<open>query_results\<close>: \<open>cached\<close> defaults to \<open>False\<close>.
\<close>

record response =
  r_id :: string
  r_status :: string
  r_result :: "row list option"
  r_error :: "string option"
  r_cached :: bool
  r_execution_time :: "real option"

definition make_response :: "string \<Rightarrow> task \<Rightarrow> response" where
  "make_response query_id result_data =
     \<lparr>r_id = query_id, r_status = status result_data,
      r_result = task_result result_data, r_error = task_error result_data,
      r_cached = (case cached result_data of None \<Rightarrow> False | Some b \<Rightarrow> b),
      r_execution_time = execution_time result_data\<rparr>"

text \<open>
  \<open>run_query\<close> (POST /query) for a request and the identifier that \<open>uuid4\<close> gives it:
  the pending entry, the awaited \<open>execute_query\<close>, and the response read from
  \<open>query_results\<close> after it (\<open>None\<close> would be the \<open>KeyError\<close> of that read). The
  deletion after 300 seconds is the separate \<open>cleanup\<close>.
\<close>

definition run_query ::
  "('w, 'h, 'c, 'p) library \<Rightarrow> clock \<Rightarrow> ('w, 'h) app \<Rightarrow> string \<Rightarrow> string \<Rightarrow>
   (string \<times> 'p) list option \<Rightarrow> string \<Rightarrow> int option \<Rightarrow> bool \<Rightarrow> response option \<times> ('w, 'h) app" where
  "run_query lib clk s query_id query params db_name cache_ttl force_refresh =
     (let s1 = put_result s query_id pending_task;
          s2 = execute_query lib clk s1 query_id query params db_name cache_ttl force_refresh
      in (map_option (make_response query_id) (query_results s2 query_id), s2))"

definition cleanup :: "('w, 'h) app \<Rightarrow> string \<Rightarrow> ('w, 'h) app" where
  "cleanup s query_id =
     (if query_results s query_id \<noteq> None
      then s\<lparr>query_results := (query_results s)(query_id := None)\<rparr> else s)"

text \<open>\<open>get_query_status\<close> (GET /query/{query\_id}): the 404 of an unknown identifier,
  or the response.\<close>

definition get_query_status :: "('w, 'h) app \<Rightarrow> string \<Rightarrow> (nat \<times> string) + response" where
  "get_query_status s query_id =
     (case query_results s query_id of
        None \<Rightarrow> Inl (404, ''Query not found'')
      | Some result_data \<Rightarrow> Inr (make_response query_id result_data))"

text \<open>
  What the specification asks of a failed submission, for the pair that \<open>run_query\<close>
  returns: the caller receives the response with status \<open>error\<close>, the text \<open>e\<close> and the
  duration \<open>dt\<close> (a value, not an exception), the entry of \<open>query_results\<close> is the
  terminal error entry with the same text and duration, and \<open>get_query_status\<close> reports
  it.
\<close>

definition error_reported ::
  "response option \<times> ('w, 'h) app \<Rightarrow> string \<Rightarrow> string \<Rightarrow> real \<Rightarrow> bool" where
  "error_reported out query_id e dt =
     (fst out = Some \<lparr>r_id = query_id, r_status = ''error'', r_result = None, r_error = Some e,
                      r_cached = False, r_execution_time = Some dt\<rparr> \<and>
      query_results (snd out) query_id =
        Some \<lparr>status = ''error'', task_result = None, task_error = Some e, cached = None,
              execution_time = Some dt\<rparr> \<and>
      get_query_status (snd out) query_id =
        Inr \<lparr>r_id = query_id, r_status = ''error'', r_result = None, r_error = Some e,
             r_cached = False, r_execution_time = Some dt\<rparr>)"

text \<open>The state of the module when it is loaded, for a cache with the given settings.\<close>

definition app_init :: "int \<Rightarrow> int \<Rightarrow> 'w \<Rightarrow> ('w, 'h) app" where
  "app_init MAX_CACHE_SIZE CACHE_EXPIRY w =
     \<lparr>query_cache = QueryCache_init MAX_CACHE_SIZE CACHE_EXPIRY, query_results = Map.empty,
      db_connections = Map.empty, db_extensions = Map.empty, world = w\<rparr>"

section \<open>Concrete runs\<close>

text \<open>
  A small library for the concrete runs below. Its world is the log of the engine calls
  made so far, a handle is the database name, a cursor is the query text; every query
  has the one row \<open>{"1": 1}\<close> and \<open>rowcount\<close> 1, and \<open>cursor.execute\<close> raises the given
  text when there is one. The digest returns its argument, so two equal keys below are
  two equal texts handed to MD5, and two different keys are two different texts.
\<close>

definition stub_library :: "string option \<Rightarrow> (string list, string, string, sql_value) library" where
  "stub_library failure =
     \<lparr>md5_hex = (\<lambda>s. Inr s), json_dumps = (\<lambda>ps. Inr ''{}''),
      connect = (\<lambda>w n f. (w @ [''connect''], Inr n)),
      listdir_extensions = (\<lambda>w. (w, Inr [])),
      cursor_execute = (\<lambda>w h q ps. case failure of Some e \<Rightarrow> (w, Inl e)
                                      | None \<Rightarrow> (w @ [''execute''], Inr q)),
      fetchall = (\<lambda>w c. (w, Inr [[(''1'', SqlInteger 1)]])),
      rowcount = (\<lambda>c. 1),
      commit = (\<lambda>w h. (w @ [''commit''], Inr ()))\<rparr>"

text \<open>A clock that reads \<open>t\<close> throughout one call and \<open>t + 1\<close> at its end.\<close>

definition stub_clock :: "real \<Rightarrow> clock" where
  "stub_clock t = \<lparr>t_start = t, t_get_default = t, t_get_check = t, t_get_hit = t,
      t_set_expiry = t, t_set_stamp = t, t_set_hit = t, t_end = t + 1\<rparr>"

text \<open>
  Two submissions whose key texts coincide, because the database name is not delimited
  in the key: a read on database \<open>a\<close> whose text ends in an SQL comment, then a write on
  the database named \<open>a:select 1 --\<close>.
\<close>

definition collision_first :: "(string list, string) app" where
  "collision_first = execute_query (stub_library None) (stub_clock 10) (app_init 1000 300 [])
      ''q1'' ''select 1 --:delete from t'' None ''a'' None False"

definition collision_second :: "(string list, string) app" where
  "collision_second = execute_query (stub_library None) (stub_clock 20) collision_first
      ''q2'' ''DELETE FROM t'' None ''a:select 1 --'' None False"

section \<open>Properties of the cache\<close>

subsection \<open>Dicts and the three structures\<close>

lemma has_key_iff: "has_key d k \<longleftrightarrow> k \<in> set (map fst d)"
  by (simp add: has_key_def map_of_eq_None_iff)

lemma length_delete_present:
  "distinct (map fst al) \<Longrightarrow> k \<in> set (map fst al) \<Longrightarrow> length (AList.delete k al) = length al - 1"
proof -
  assume d: "distinct (map fst al)" and k: "k \<in> set (map fst al)"
  have "length (AList.delete k al) = length (map fst (AList.delete k al))" by simp
  also have "\<dots> = length (remove1 k (map fst al))"
    using d by (simp add: delete_keys distinct_remove1_removeAll)
  also have "\<dots> = length al - 1" using k by (simp add: length_remove1)
  finally show ?thesis .
qed

lemma keys_delete: "set (map fst (AList.delete k al)) = set (map fst al) - {k}"
  by (simp add: delete_keys)

lemma keys_update: "set (map fst (AList.update k v al)) = insert k (set (map fst al))"
  by (auto simp: update_keys)

lemma delete_absent: "k \<notin> set (map fst al) \<Longrightarrow> AList.delete k al = al"
  by (induction al) (auto simp: AList.delete_eq)

lemma inv_init: "QueryCache_inv (QueryCache_init m d)"
  by (simp add: QueryCache_inv_def QueryCache_init_def)

lemma remove_item_cache:
  "cache (QueryCache_remove_item c k) = AList.delete k (cache c)"
  by (simp add: QueryCache_remove_item_def Let_def has_key_iff delete_absent del: set_map)

lemma remove_item_exp:
  "expiration_times (QueryCache_remove_item c k) = AList.delete k (expiration_times c)"
  by (simp add: QueryCache_remove_item_def Let_def has_key_iff delete_absent del: set_map)

lemma remove_item_lru:
  "lru_keys (QueryCache_remove_item c k) = remove1 k (lru_keys c)"
  by (simp add: QueryCache_remove_item_def Let_def remove1_idem)

lemma remove_item_consts:
  "max_cache_size (QueryCache_remove_item c k) = max_cache_size c"
  "default_ttl (QueryCache_remove_item c k) = default_ttl c"
  by (simp_all add: QueryCache_remove_item_def Let_def)

lemmas remove_item_simps = remove_item_cache remove_item_exp remove_item_lru remove_item_consts

lemma inv_remove_item: "QueryCache_inv c \<Longrightarrow> QueryCache_inv (QueryCache_remove_item c k)"
  by (auto simp: QueryCache_inv_def remove_item_simps delete_keys distinct_removeAll)


lemma remove_lru_item_Nil: "lru_keys c = [] \<Longrightarrow> QueryCache_remove_lru_item c = c"
  by (simp add: QueryCache_remove_lru_item_def)

lemma remove_lru_item_Cons:
  "lru_keys c = h # rest \<Longrightarrow>
   QueryCache_remove_lru_item c = QueryCache_remove_item (c\<lparr>lru_keys := rest\<rparr>) h"
  by (simp add: QueryCache_remove_lru_item_def)

lemma remove_lru_item_consts:
  "max_cache_size (QueryCache_remove_lru_item c) = max_cache_size c"
  "default_ttl (QueryCache_remove_lru_item c) = default_ttl c"
  by (simp_all add: QueryCache_remove_lru_item_def remove_item_consts split: list.split)

lemma inv_remove_lru_item:
  assumes "QueryCache_inv c"
  shows "QueryCache_inv (QueryCache_remove_lru_item c)"
proof (cases "lru_keys c")
  case Nil
  then show ?thesis using assms by (simp add: remove_lru_item_Nil)
next
  case (Cons h rest)
  have "set (map fst (cache c)) = insert h (set rest)" "h \<notin> set rest" "distinct rest"
    using assms Cons by (auto simp: QueryCache_inv_def)
  then show ?thesis using assms Cons
    by (auto simp: remove_lru_item_Cons QueryCache_inv_def remove_item_simps delete_keys
        distinct_removeAll remove1_idem)
qed

lemma lru_touch_eq: "lru_touch ks k = remove1 k ks @ [k]"
  by (simp add: lru_touch_def remove1_idem)

lemma lru_touch_set: "set (lru_touch ks k) = insert k (set ks)"
proof (rule set_eqI)
  fix x
  show "x \<in> set (lru_touch ks k) \<longleftrightarrow> x \<in> insert k (set ks)"
    by (cases "x = k") (simp_all add: lru_touch_eq)
qed

lemma lru_touch_distinct: "distinct ks \<Longrightarrow> distinct (lru_touch ks k)"
  by (simp add: lru_touch_eq)

lemma set_consts:
  "max_cache_size (QueryCache_set c t1 t2 t3 k v ttl) = max_cache_size c"
  "default_ttl (QueryCache_set c t1 t2 t3 k v ttl) = default_ttl c"
  by (simp_all add: QueryCache_set_def Let_def remove_lru_item_consts)

lemma inv_set:
  assumes "QueryCache_inv c"
  shows "QueryCache_inv (QueryCache_set c t1 t2 t3 k v ttl)"
proof -
  define c1 where "c1 = (if int (length (cache c)) \<ge> max_cache_size c
                then QueryCache_remove_lru_item c else c)"
  have "QueryCache_inv c1" using assms by (simp add: c1_def inv_remove_lru_item)
  then show ?thesis
    unfolding QueryCache_set_def Let_def c1_def[symmetric]
    by (auto simp: QueryCache_inv_def distinct_update keys_update lru_touch_set
        lru_touch_distinct simp del: set_map)
qed

lemma inv_get:
  assumes "QueryCache_inv c"
  shows "QueryCache_inv (snd (QueryCache_get c t1 t2 t3 k))"
proof (cases "map_of (cache c) k")
  case None
  then show ?thesis using assms by (simp add: QueryCache_get_def)
next
  case (Some item)
  then have "k \<in> set (map fst (cache c))"
    by (metis has_key_def has_key_iff option.distinct(1))
  define expiry where "expiry = (case map_of (expiration_times c) k of
                           Some e \<Rightarrow> e
                         | None \<Rightarrow> t1 + real_of_int (default_ttl c))"
  show ?thesis
  proof (cases "t2 < expiry")
    case True
    then have "snd (QueryCache_get c t1 t2 t3 k) =
       c\<lparr>cache := AList.update k (item\<lparr>hits := hits item + 1, last_hit_time := t3\<rparr>) (cache c),
         lru_keys := lru_touch (lru_keys c) k\<rparr>"
      using Some by (simp add: QueryCache_get_def Let_def expiry_def)
    then show ?thesis using assms \<open>k \<in> set (map fst (cache c))\<close>
      by (auto simp: QueryCache_inv_def distinct_update keys_update lru_touch_set
          lru_touch_distinct simp del: set_map)
  next
    case False
    then have "snd (QueryCache_get c t1 t2 t3 k) = QueryCache_remove_item c k"
      using Some by (simp add: QueryCache_get_def Let_def expiry_def)
    then show ?thesis using assms by (simp add: inv_remove_item)
  qed
qed

lemma inv_clear: "QueryCache_inv (QueryCache_clear c)"
  by (simp add: QueryCache_inv_def QueryCache_clear_def)

lemma inv_fold_remove:
  "QueryCache_inv c \<Longrightarrow> QueryCache_inv (fold (\<lambda>k c'. QueryCache_remove_item c' k) ks c)"
  by (induction ks arbitrary: c) (simp_all add: inv_remove_item)

lemma inv_cleanup_expired:
  "QueryCache_inv c \<Longrightarrow> QueryCache_inv (snd (QueryCache_cleanup_expired c now))"
  by (simp add: QueryCache_cleanup_expired_def Let_def inv_fold_remove)


lemma length_update:
  "length (AList.update k v al) = (if k \<in> set (map fst al) then length al else Suc (length al))"
  by (induction al) auto

lemma length_delete_le': "length (AList.delete k al) \<le> length al"
  by (simp add: AList.delete_eq)

lemma set_cache:
  "cache (QueryCache_set c t1 t2 t3 k v ttl) =
     AList.update k \<lparr>result = v, timestamp = t2, hits = 1, last_hit_time = t3\<rparr>
       (cache (if int (length (cache c)) \<ge> max_cache_size c
               then QueryCache_remove_lru_item c else c))"
  by (simp add: QueryCache_set_def Let_def)

lemma set_capacity:
  assumes inv: "QueryCache_inv c" and pos: "1 \<le> max_cache_size c"
    and le: "int (length (cache c)) \<le> max_cache_size c"
  shows "int (length (cache (QueryCache_set c t1 t2 t3 k v ttl))) \<le> max_cache_size c"
proof (cases "int (length (cache c)) \<ge> max_cache_size c")
  case False
  then show ?thesis by (simp add: set_cache length_update)
next
  case True
  then have "length (cache c) \<noteq> 0" using pos by auto
  then have "cache c \<noteq> []" by simp
  then have "lru_keys c \<noteq> []" using inv by (auto simp: QueryCache_inv_def)
  then obtain h rest where hr: "lru_keys c = h # rest" by (cases "lru_keys c") auto
  then have hin: "h \<in> set (map fst (cache c))" using inv by (auto simp: QueryCache_inv_def)
  have "cache (QueryCache_remove_lru_item c) = AList.delete h (cache c)"
    using hr by (simp add: remove_lru_item_Cons remove_item_cache)
  moreover have "length (AList.delete h (cache c)) = length (cache c) - 1"
    using inv hin by (simp add: length_delete_present QueryCache_inv_def)
  ultimately have "length (cache (QueryCache_set c t1 t2 t3 k v ttl)) \<le> length (cache c)"
    using True \<open>length (cache c) \<noteq> 0\<close> by (simp add: set_cache length_update)
  then show ?thesis using le by linarith
qed

lemma remove_item_length: "length (cache (QueryCache_remove_item c k)) \<le> length (cache c)"
  by (simp add: remove_item_cache length_delete_le')

lemma fold_remove_length:
  "length (cache (fold (\<lambda>k c'. QueryCache_remove_item c' k) ks c)) \<le> length (cache c)"
proof (induction ks arbitrary: c)
  case Nil
  then show ?case by simp
next
  case (Cons k ks)
  have "length (cache (fold (\<lambda>k c'. QueryCache_remove_item c' k) ks (QueryCache_remove_item c k)))
        \<le> length (cache (QueryCache_remove_item c k))" by (rule Cons.IH)
  also have "\<dots> \<le> length (cache c)" by (rule remove_item_length)
  finally show ?case by simp
qed

lemma fold_remove_consts:
  "max_cache_size (fold (\<lambda>k c'. QueryCache_remove_item c' k) ks c) = max_cache_size c"
  by (induction ks arbitrary: c) (simp_all add: remove_item_consts)

lemma get_length: "length (cache (snd (QueryCache_get c t1 t2 t3 k))) \<le> length (cache c)"
proof (cases "map_of (cache c) k")
  case None
  then show ?thesis by (simp add: QueryCache_get_def)
next
  case (Some item)
  then have "k \<in> set (map fst (cache c))"
    by (metis has_key_def has_key_iff option.distinct(1))
  then show ?thesis using Some
    by (simp add: QueryCache_get_def Let_def remove_item_length length_update del: set_map)
qed

lemma get_consts: "max_cache_size (snd (QueryCache_get c t1 t2 t3 k)) = max_cache_size c"
  by (simp add: QueryCache_get_def Let_def remove_item_consts split: option.split)

lemma apply_op_max: "max_cache_size (apply_op c op) = max_cache_size c"
  by (cases op)
     (simp_all add: get_consts set_consts QueryCache_cleanup_expired_def Let_def
        fold_remove_consts QueryCache_clear_def)

lemma apply_op_within:
  assumes "1 \<le> max_cache_size c" and "within_capacity c"
  shows "within_capacity (apply_op c op)"
proof (cases op)
  case (Get t1 t2 t3 k)
  have "length (cache (snd (QueryCache_get c t1 t2 t3 k))) \<le> length (cache c)"
    by (rule get_length)
  then show ?thesis using assms Get
    by (simp add: within_capacity_def inv_get get_consts)
next
  case (Set t1 t2 t3 k v ttl)
  then show ?thesis using assms
    by (simp add: within_capacity_def inv_set set_consts set_capacity)
next
  case (CleanupExpired now)
  have "length (cache (fold (\<lambda>k c'. QueryCache_remove_item c' k) (expired_keys c now) c))
        \<le> length (cache c)" by (rule fold_remove_length)
  then show ?thesis using assms CleanupExpired
    by (simp add: within_capacity_def QueryCache_cleanup_expired_def Let_def inv_fold_remove
        fold_remove_consts)
next
  case Clear
  then show ?thesis using assms
    by (simp add: within_capacity_def inv_clear) (simp add: QueryCache_clear_def)
qed

lemma run_ops_within:
  "1 \<le> max_cache_size c \<Longrightarrow> within_capacity c \<Longrightarrow> within_capacity (run_ops c ops)"
proof (induction ops arbitrary: c)
  case Nil
  then show ?case by (simp add: run_ops_def)
next
  case (Cons op ops)
  have "within_capacity (apply_op c op)" using Cons.prems by (rule apply_op_within)
  moreover have "1 \<le> max_cache_size (apply_op c op)" using Cons.prems by (simp add: apply_op_max)
  ultimately have "within_capacity (run_ops (apply_op c op) ops)" by (rule Cons.IH[rotated])
  then show ?case by (simp add: run_ops_def)
qed

lemma run_ops_max: "max_cache_size (run_ops c ops) = max_cache_size c"
  by (induction ops arbitrary: c) (simp_all add: run_ops_def apply_op_max)

lemma init_within: "0 \<le> m \<Longrightarrow> within_capacity (QueryCache_init m d)"
  by (simp add: within_capacity_def inv_init) (simp add: QueryCache_init_def)

lemmas cache_defs = QueryCache_init_def QueryCache_set_def QueryCache_get_def
  QueryCache_remove_lru_item_def QueryCache_remove_item_def has_key_def lru_touch_def
  QueryCache_cleanup_expired_def expired_keys_def Let_def

subsection \<open>Eviction on \<open>set\<close>\<close>

text \<open>The keys that \<open>set\<close> leaves, for any cache: the head of the LRU list goes whenever
  the capacity test succeeds, whether or not the key is present.\<close>

lemma set_keys:
  "map fst (cache (QueryCache_set c t1 t2 t3 k v ttl)) =
     (let ks = (if int (length (cache c)) \<ge> max_cache_size c
                then (case lru_keys c of [] \<Rightarrow> map fst (cache c)
                      | h # rest \<Rightarrow> removeAll h (map fst (cache c)))
                else map fst (cache c))
      in if k \<in> set ks then ks else ks @ [k])"
  by (simp add: set_cache update_keys Let_def QueryCache_remove_lru_item_def remove_item_cache
      delete_keys split: list.split del: set_map)

lemma set_overwrite_evicts_head:
  assumes "int (length (cache c)) \<ge> max_cache_size c" and "lru_keys c = h # rest"
    and "has_key (cache c) k" and "h \<noteq> k"
  shows "\<not> has_key (cache (QueryCache_set c t1 t2 t3 k v ttl)) h"
proof -
  have "k \<in> set (map fst (cache c))" using assms(3) by (simp add: has_key_iff)
  then have "map fst (cache (QueryCache_set c t1 t2 t3 k v ttl)) = removeAll h (map fst (cache c))"
    using assms(1,2,4) by (simp add: set_keys)
  then have "h \<notin> set (map fst (cache (QueryCache_set c t1 t2 t3 k v ttl)))" by simp
  then show ?thesis by (simp only: has_key_iff not_False_eq_True)
qed

text \<open>
  Claim C2: \<open>set\<close> evicts the head of the LRU order if and only if the cache holds
  \<open>MaxCacheSize\<close> entries and the key is not already present; a \<open>set\<close> that overwrites a
  key of a full cache evicts nothing. The code tests \<open>len(self.cache) >= max_cache_size\<close>
  alone. With capacity 2, after \<open>set(a); set(b)\<close> the cache is full and holds \<open>a\<close> and
  \<open>b\<close>; the overwriting \<open>set(b)\<close> then evicts \<open>a\<close>, and the cache is left with \<open>b\<close>
  alone, one entry below its capacity.
\<close>

theorem set_overwrite_in_full_cache_evicts:
  "map fst (cache (QueryCache_set (QueryCache_set (QueryCache_init 2 300)
       1 1 1 ''a'' (10::nat) None) 2 2 2 ''b'' 20 None)) = [''a'', ''b''] \<and>
   map fst (cache (QueryCache_set (QueryCache_set (QueryCache_set (QueryCache_init 2 300)
       1 1 1 ''a'' (10::nat) None) 2 2 2 ''b'' 20 None) 3 3 3 ''b'' 21 None)) = [''b''] \<and>
   lru_keys (QueryCache_set (QueryCache_set (QueryCache_set (QueryCache_init 2 300)
       1 1 1 ''a'' (10::nat) None) 2 2 2 ''b'' 20 None) 3 3 3 ''b'' 21 None) = [''b'']"
  by (simp add: cache_defs)

subsection \<open>The capacity bound\<close>

text \<open>
  Claim C3: after any sequence of cache operations, when a \<open>set\<close> returns the cache holds
  at most \<open>MaxCacheSize\<close> entries. This holds for a capacity of at least 1: from the
  empty cache of \<open>__init__\<close>, through any operations, the \<open>set\<close> that follows leaves at
  most \<open>m\<close> entries.
\<close>

theorem capacity_bound_after_set:
  assumes "1 \<le> m"
  shows "int (length (cache (QueryCache_set (run_ops (QueryCache_init m d) ops)
                               t_expiry t_stamp t_hit k v ttl))) \<le> m"
proof -
  let ?c = "run_ops (QueryCache_init m d) ops"
  have m: "max_cache_size ?c = m" by (simp add: run_ops_max QueryCache_init_def)
  have "within_capacity (QueryCache_init m d)" using assms by (simp add: init_within)
  then have "within_capacity ?c" using assms
    by (intro run_ops_within) (simp_all add: QueryCache_init_def)
  then show ?thesis using set_capacity[of ?c] assms m by (simp add: within_capacity_def)
qed

theorem capacity_bound_after_set_witness:
  "(1::int) \<le> 2 \<and>
   int (length (cache (QueryCache_set
      (run_ops (QueryCache_init 2 300) [Set 1 1 1 ''a'' (10::nat) None, Set 2 2 2 ''b'' 20 None,
                                        Get 3 3 3 ''a''])
      4 4 4 ''c'' 30 None))) \<le> 2 \<and>
   map fst (cache (QueryCache_set
      (run_ops (QueryCache_init 2 300) [Set 1 1 1 ''a'' (10::nat) None, Set 2 2 2 ''b'' 20 None,
                                        Get 3 3 3 ''a''])
      4 4 4 ''c'' 30 None)) = [''a'', ''c'']"
proof -
  have h: "(1::int) \<le> 2" by simp
  have "int (length (cache (QueryCache_set
      (run_ops (QueryCache_init 2 300) [Set 1 1 1 ''a'' (10::nat) None, Set 2 2 2 ''b'' 20 None,
                                        Get 3 3 3 ''a''])
      4 4 4 ''c'' 30 None))) \<le> 2"
    by (rule capacity_bound_after_set[OF h])
  moreover have "map fst (cache (QueryCache_set
      (run_ops (QueryCache_init 2 300) [Set 1 1 1 ''a'' (10::nat) None, Set 2 2 2 ''b'' 20 None,
                                        Get 3 3 3 ''a''])
      4 4 4 ''c'' 30 None)) = [''a'', ''c'']"
    by (simp add: run_ops_def cache_defs)
  ultimately show ?thesis using h by blast
qed

text \<open>
  With \<open>MAX_CACHE_SIZE = 0\<close> the bound fails: the first \<open>set\<close> finds nothing to evict
  and inserts, so the cache holds one entry.
\<close>

theorem capacity_zero_exceeded:
  "max_cache_size (QueryCache_init 0 300 :: nat QueryCache) = 0 \<and>
   int (length (cache (QueryCache_set (run_ops (QueryCache_init 0 300) []) 1 1 1 ''a'' (10::nat) None))) = 1 \<and>
   \<not> int (length (cache (QueryCache_set (run_ops (QueryCache_init 0 300) []) 1 1 1 ''a'' (10::nat) None)))
       \<le> max_cache_size (QueryCache_init 0 300 :: nat QueryCache)"
  by (simp add: run_ops_def cache_defs)

subsection \<open>The order of eviction\<close>

text \<open>A hit of \<open>get\<close> moves the key to the tail of the LRU list.\<close>

lemma get_hit_moves_to_tail:
  assumes "snd (fst (QueryCache_get c t1 t2 t3 k))"
  shows "lru_keys (snd (QueryCache_get c t1 t2 t3 k)) = remove1 k (lru_keys c) @ [k]"
  using assms
  by (auto simp: QueryCache_get_def Let_def lru_touch_eq split: option.splits if_splits)

text \<open>
  Claim C4: with capacity 2 and distinct keys \<open>a\<close>, \<open>b\<close>, \<open>c\<close>, the calls
  \<open>set(a); set(b); set(c)\<close> evict \<open>a\<close> and keep \<open>b\<close> and \<open>c\<close>; with a \<open>get(a)\<close> that
  finds \<open>a\<close> unexpired between \<open>set(b)\<close> and \<open>set(c)\<close>, the \<open>get\<close> is a hit that moves
  \<open>a\<close> to the tail of the LRU order, and \<open>set(c)\<close> evicts the head \<open>b\<close> and keeps \<open>a\<close>
  and \<open>c\<close>. Payloads, TTLs, the default TTL and all other clock readings are arbitrary.
\<close>

theorem lru_eviction_order:
  assumes "a \<noteq> b" and "a \<noteq> c" and "b \<noteq> c"
    and "tg_check < ta_expiry + real_of_int (case ttl_a of Some n \<Rightarrow> n | None \<Rightarrow> d)"
  shows
   "map fst (cache (QueryCache_set (QueryCache_set (QueryCache_set (QueryCache_init 2 d)
        ta_expiry ta2 ta3 a va ttl_a) tb1 tb2 tb3 b vb ttl_b) tc1 tc2 tc3 c vc ttl_c)) = [b, c] \<and>
    lru_keys (QueryCache_set (QueryCache_set (QueryCache_set (QueryCache_init 2 d)
        ta_expiry ta2 ta3 a va ttl_a) tb1 tb2 tb3 b vb ttl_b) tc1 tc2 tc3 c vc ttl_c) = [b, c] \<and>
    fst (QueryCache_get (QueryCache_set (QueryCache_set (QueryCache_init 2 d)
        ta_expiry ta2 ta3 a va ttl_a) tb1 tb2 tb3 b vb ttl_b) tg1 tg_check tg3 a) = (Some va, True) \<and>
    lru_keys (snd (QueryCache_get (QueryCache_set (QueryCache_set (QueryCache_init 2 d)
        ta_expiry ta2 ta3 a va ttl_a) tb1 tb2 tb3 b vb ttl_b) tg1 tg_check tg3 a)) = [b, a] \<and>
    map fst (cache (QueryCache_set (snd (QueryCache_get (QueryCache_set (QueryCache_set
        (QueryCache_init 2 d) ta_expiry ta2 ta3 a va ttl_a) tb1 tb2 tb3 b vb ttl_b)
        tg1 tg_check tg3 a)) tc1 tc2 tc3 c vc ttl_c)) = [a, c] \<and>
    lru_keys (QueryCache_set (snd (QueryCache_get (QueryCache_set (QueryCache_set
        (QueryCache_init 2 d) ta_expiry ta2 ta3 a va ttl_a) tb1 tb2 tb3 b vb ttl_b)
        tg1 tg_check tg3 a)) tc1 tc2 tc3 c vc ttl_c) = [a, c]"
  using assms assms(1-3)[symmetric] by (simp add: cache_defs split: option.splits)

theorem lru_eviction_order_witness:
  "''a'' \<noteq> ''b'' \<and> ''a'' \<noteq> ''c'' \<and> ''b'' \<noteq> ''c'' \<and> (3::real) < 1 + real_of_int 300 \<and>
   map fst (cache (QueryCache_set (QueryCache_set (QueryCache_set (QueryCache_init 2 300)
        1 1 1 ''a'' (10::nat) None) 2 2 2 ''b'' 20 None) 4 4 4 ''c'' 30 None)) = [''b'', ''c''] \<and>
   map fst (cache (QueryCache_set (snd (QueryCache_get (QueryCache_set (QueryCache_set
        (QueryCache_init 2 300) 1 1 1 ''a'' (10::nat) None) 2 2 2 ''b'' 20 None)
        3 3 3 ''a'')) 4 4 4 ''c'' 30 None)) = [''a'', ''c'']"
proof -
  have h: "''a'' \<noteq> ''b''" "''a'' \<noteq> ''c''" "''b'' \<noteq> ''c''"
    "(3::real) < 1 + real_of_int (case None of Some n \<Rightarrow> n | None \<Rightarrow> 300)"
    by simp_all
  show ?thesis
    using lru_eviction_order[OF h, of 1 1 "10::nat" 2 2 2 20 None 4 4 4 30 None 3 3] h(1-3)
    by simp
qed

subsection \<open>Expiry at the boundary\<close>

lemma fold_remove_cache:
  "cache (fold (\<lambda>k c'. QueryCache_remove_item c' k) ks c)
     = filter (\<lambda>p. fst p \<notin> set ks) (cache c)"
proof (induction ks arbitrary: c)
  case Nil
  then show ?case by simp
next
  case (Cons k ks)
  have "filter (\<lambda>p. fst p \<notin> set ks) (AList.delete k (cache c))
        = filter (\<lambda>p. fst p \<notin> set (k # ks)) (cache c)"
    by (induction "cache c") (auto simp: AList.delete_eq intro: filter_cong)
  then show ?case by (simp add: Cons.IH remove_item_cache)
qed

text \<open>What \<open>cleanup_expired\<close> does: it removes the entries whose expiry is strictly before
  the reading, keeps every other entry as it is, and returns the number of removed keys.\<close>

lemma cleanup_expired_strict:
  "fst (QueryCache_cleanup_expired c now)
     = int (length (filter (\<lambda>(k, v). v < now) (expiration_times c))) \<and>
   cache (snd (QueryCache_cleanup_expired c now))
     = filter (\<lambda>p. fst p \<notin> fst ` {(k, v) \<in> set (expiration_times c). v < now}) (cache c)"
proof -
  have "set (expired_keys c now) = fst ` {(k, v) \<in> set (expiration_times c). v < now}"
    by (auto simp: expired_keys_def)
  then show ?thesis
    by (simp add: QueryCache_cleanup_expired_def Let_def fold_remove_cache)
       (simp add: expired_keys_def)
qed

text \<open>
  Claim C5: \<open>cleanup_expired\<close> removes exactly the entries with \<open>expiresAt \<le> now\<close>,
  those expiring at exactly \<open>now\<close> included, and returns their number. The code tests
  \<open>current_time > v\<close>. An entry set at time 5 with a TTL of 5 expires at 10; at time 10
  \<open>cleanup_expired\<close> returns 0 and leaves it in place, while \<open>get\<close> at the same time
  takes it for expired and removes it.
\<close>

theorem cleanup_expired_keeps_entry_expiring_now:
  "expiration_times (QueryCache_set (QueryCache_init 1000 300) 5 5 5 ''k'' (10::nat) (Some 5))
     = [(''k'', 10)] \<and>
   QueryCache_cleanup_expired
     (QueryCache_set (QueryCache_init 1000 300) 5 5 5 ''k'' (10::nat) (Some 5)) 10
     = (0, QueryCache_set (QueryCache_init 1000 300) 5 5 5 ''k'' (10::nat) (Some 5)) \<and>
   QueryCache_get
     (QueryCache_set (QueryCache_init 1000 300) 5 5 5 ''k'' (10::nat) (Some 5)) 10 10 10 ''k''
     = ((None, False), QueryCache_init 1000 300)"
  by (simp add: cache_defs)

section \<open>Properties of the cache key\<close>

lemma isspace_lower_char: "isspace (lower_char c) = isspace c"
proof -
  have "of_char c < (256::nat)" by simp
  then show ?thesis
    by (auto simp: isspace_def lower_char_def Let_def)
qed

lemma split_from_lower:
  "split_from (map lower_char w) (map lower_char s) = map (map lower_char) (split_from w s)"
proof (induction s arbitrary: w)
  case Nil
  then show ?case by simp
next
  case (Cons a s)
  show ?case using Cons.IH[of "w @ [a]"] Cons.IH[of "[]"]
    by (simp add: isspace_lower_char)
qed

lemma lower_char_space: "lower_char CHR '' '' = CHR '' ''"
  by (simp add: lower_char_def)

lemma join_space_lower:
  "map lower_char (join_space ws) = join_space (map (map lower_char) ws)"
  by (induction ws rule: join_space.induct) (simp_all add: lower_char_space)

text \<open>Lower-casing commutes with splitting and joining: the normalised text depends on
  the lower-cased query only.\<close>

lemma query_normalized_lower: "query_normalized q = join_space (split (lower q))"
  using split_from_lower[of "[]" q]
  by (simp add: query_normalized_def lower_def split_def join_space_lower)

lemma isspace_space: "isspace CHR '' ''"
  by (simp add: isspace_def)

lemma split_from_collapse:
  "(prev \<longrightarrow> w = []) \<Longrightarrow> split_from w (collapse_from prev s) = split_from w s"
  by (induction s arbitrary: prev w) (simp_all add: isspace_space)

lemma split_collapse: "split (collapse_whitespace q) = split q"
  by (simp add: split_def collapse_whitespace_def split_from_collapse)

lemma query_normalized_collapse: "query_normalized (collapse_whitespace q) = query_normalized q"
  by (simp add: query_normalized_def split_collapse)

text \<open>The two forms of a letter have one lower-case form, which is what \<open>lower\<close> makes
  of both.\<close>

lemma case_pair_lower_char:
  assumes "case_pair c c'"
  shows "lower_char c' = lower_char c"
proof -
  have b: "of_char c < (256::nat)" "of_char c' < (256::nat)" by simp_all
  consider "c' = c"
    | "is_upper_letter c" "(of_char c' :: nat) = of_char c + 32"
    | "is_upper_letter c'" "(of_char c :: nat) = of_char c' + 32"
    using assms by (auto simp: case_pair_def)
  then show ?thesis
  proof cases
    case 1
    then show ?thesis by simp
  next
    case 2
    have "c' = char_of (of_char c' :: nat)" by simp
    then have c': "c' = char_of (of_char c + 32 :: nat)" using 2(2) by simp
    have "lower_char c = char_of (of_char c + 32 :: nat)"
      using 2(1) by (auto simp: lower_char_def is_upper_letter_def Let_def)
    moreover have "lower_char c' = c'"
      using 2 by (auto simp: lower_char_def is_upper_letter_def Let_def)
    ultimately show ?thesis using c' by simp
  next
    case 3
    have "c = char_of (of_char c :: nat)" by simp
    then have c: "c = char_of (of_char c' + 32 :: nat)" using 3(2) by simp
    have "lower_char c' = char_of (of_char c' + 32 :: nat)"
      using 3(1) by (auto simp: lower_char_def is_upper_letter_def Let_def)
    moreover have "lower_char c = c"
      using 3 by (auto simp: lower_char_def is_upper_letter_def Let_def)
    ultimately show ?thesis using c by simp
  qed
qed

lemma case_variant_lower: "case_variant q q' \<Longrightarrow> lower q' = lower q"
  unfolding case_variant_def lower_def
  by (induction rule: list_all2_induct) (simp_all add: case_pair_lower_char)

lemma query_normalized_case_variant:
  "case_variant q q' \<Longrightarrow> query_normalized q' = query_normalized q"
  by (simp add: query_normalized_lower case_variant_lower)

lemma query_normalized_example:
  "query_normalized ''SELECT  *  FROM t'' = query_normalized ''select * from t''"
  by code_simp

text \<open>Values of \<open>lower\<close> and \<open>upper\<close> beyond ASCII: the accented capitals go to their
  small forms, the multiplication sign and the sharp s stay under \<open>lower\<close>, and \<open>upper\<close>
  turns the sharp s into \<open>SS\<close>.\<close>

lemma lower_upper_latin1:
  "lower [CHR 0xC0, CHR 0xC9, CHR 0xD6, CHR 0xD7, CHR 0xD8, CHR 0xDE, CHR 0xDF, CHR 0xE9]
     = [CHR 0xE0, CHR 0xE9, CHR 0xF6, CHR 0xD7, CHR 0xF8, CHR 0xFE, CHR 0xDF, CHR 0xE9]"
  "upper [CHR 0xE0, CHR 0xE9, CHR 0xF7, CHR 0xFE, CHR 0xDF] = [CHR 0xC0, CHR 0xC9, CHR 0xF7, CHR 0xDE] @ ''SS''"
  by code_simp+

text \<open>
  Claim C8: the key is a function of the database name, the query and the parameters,
  and it does not change when runs of whitespace in the query are collapsed or when the
  case of the query text changes; \<open>SELECT  *  FROM t\<close> and \<open>select * from t\<close> have one
  key. The key is computed from its arguments alone (no state, no clock), for any digest
  and any serialisation of the parameters; it is unchanged by collapsing whitespace, and
  by changing the case of letters that have one upper-case and one lower-case form
  (\<open>case_variant\<close>), which covers the example.
\<close>

theorem cache_key_whitespace_case_invariant:
  "generate_cache_key h d (collapse_whitespace q) p db = generate_cache_key h d q p db \<and>
   (case_variant q q' \<longrightarrow> generate_cache_key h d q' p db = generate_cache_key h d q p db) \<and>
   case_variant ''SELECT  *  FROM t'' ''select  *  from t'' \<and>
   generate_cache_key h d ''SELECT  *  FROM t'' p db
     = generate_cache_key h d ''select * from t'' p db"
proof (intro conjI impI)
  show "generate_cache_key h d (collapse_whitespace q) p db = generate_cache_key h d q p db"
    by (simp add: generate_cache_key_def key_data_def query_normalized_collapse
        split: sum.split)
  show "generate_cache_key h d q' p db = generate_cache_key h d q p db" if "case_variant q q'"
    using that
    by (simp add: generate_cache_key_def key_data_def query_normalized_case_variant
        split: sum.split)
  show "case_variant ''SELECT  *  FROM t'' ''select  *  from t''"
    by code_simp
  show "generate_cache_key h d ''SELECT  *  FROM t'' p db
     = generate_cache_key h d ''select * from t'' p db"
    by (simp add: generate_cache_key_def key_data_def query_normalized_example
        split: sum.split)
qed

theorem cache_key_whitespace_case_invariant_witness:
  "case_variant (''Select Caf'' @ [CHR 0xC9, CHR 0xE0]) (''sELECT cAF'' @ [CHR 0xE9, CHR 0xC0]) \<and>
   generate_cache_key (md5_hex (stub_library None)) (json_dumps (stub_library None))
       (''sELECT cAF'' @ [CHR 0xE9, CHR 0xC0]) None ''db''
     = generate_cache_key (md5_hex (stub_library None)) (json_dumps (stub_library None))
         (''Select Caf'' @ [CHR 0xC9, CHR 0xE0]) None ''db'' \<and>
   generate_cache_key (md5_hex (stub_library None)) (json_dumps (stub_library None))
       (''Select Caf'' @ [CHR 0xC9, CHR 0xE0]) None ''db''
     = Inr (''db:select caf'' @ [CHR 0xE9, CHR 0xE0] @ '':'')"
proof -
  have h: "case_variant (''Select Caf'' @ [CHR 0xC9, CHR 0xE0]) (''sELECT cAF'' @ [CHR 0xE9, CHR 0xC0])"
    by code_simp
  have v: "generate_cache_key (md5_hex (stub_library None)) (json_dumps (stub_library None))
       (''Select Caf'' @ [CHR 0xC9, CHR 0xE0]) None ''db''
     = Inr (''db:select caf'' @ [CHR 0xE9, CHR 0xE0] @ '':'')"
    by code_simp
  have "case_variant (''Select Caf'' @ [CHR 0xC9, CHR 0xE0]) (''sELECT cAF'' @ [CHR 0xE9, CHR 0xC0]) \<longrightarrow>
     generate_cache_key (md5_hex (stub_library None)) (json_dumps (stub_library None))
       (''sELECT cAF'' @ [CHR 0xE9, CHR 0xC0]) None ''db''
     = generate_cache_key (md5_hex (stub_library None)) (json_dumps (stub_library None))
         (''Select Caf'' @ [CHR 0xC9, CHR 0xE0]) None ''db''"
    by (rule cache_key_whitespace_case_invariant[THEN conjunct2, THEN conjunct1])
  then have "generate_cache_key (md5_hex (stub_library None)) (json_dumps (stub_library None))
       (''sELECT cAF'' @ [CHR 0xE9, CHR 0xC0]) None ''db''
     = generate_cache_key (md5_hex (stub_library None)) (json_dumps (stub_library None))
         (''Select Caf'' @ [CHR 0xC9, CHR 0xE0]) None ''db''"
    using h by (rule mp)
  with h v show ?thesis by (intro conjI)
qed

text \<open>
  The key is not unchanged by every change of case. \<open>str.upper\<close> turns the sharp s
  (code point 223) into \<open>SS\<close>, and \<open>lower\<close> makes \<open>ss\<close> of that, not the sharp s: a
  query holding it and its upper-cased form give MD5 two different texts.
\<close>

theorem cache_key_changes_under_upper:
  "upper (''select '' @ [CHR 0xDF]) = ''SELECT SS'' \<and>
   generate_cache_key (md5_hex (stub_library None)) (json_dumps (stub_library None))
       (''select '' @ [CHR 0xDF]) None ''db'' = Inr (''db:select '' @ [CHR 0xDF] @ '':'') \<and>
   generate_cache_key (md5_hex (stub_library None)) (json_dumps (stub_library None))
       (upper (''select '' @ [CHR 0xDF])) None ''db'' = Inr ''db:select ss:'' \<and>
   generate_cache_key (md5_hex (stub_library None)) (json_dumps (stub_library None))
       (upper (''select '' @ [CHR 0xDF])) None ''db''
     \<noteq> generate_cache_key (md5_hex (stub_library None)) (json_dumps (stub_library None))
         (''select '' @ [CHR 0xDF]) None ''db''"
  by code_simp

text \<open>
  Claim C10: the key computed with an empty parameter dict is the key computed without
  parameters: both are false in \<open>if params\<close>, so both contribute the empty text.
\<close>

theorem cache_key_empty_params_eq_none:
  "generate_cache_key h d q (Some []) db = generate_cache_key h d q None db"
  by (simp add: generate_cache_key_def params_str_def truthy_def)

section \<open>Properties of query execution\<close>

lemma get_call_absent:
  "\<not> has_key (cache c) k \<Longrightarrow> QueryCache_get_call c t1 t2 t3 k = (c, Inr (None, False))"
  by (simp add: QueryCache_get_call_def QueryCache_get_def has_key_def)

lemma get_db_connection_frame:
  "query_cache (fst (get_db_connection lib s n f)) = query_cache s"
  "query_results (fst (get_db_connection lib s n f)) = query_results s"
  by (simp_all add: get_db_connection_def Let_def split: option.split prod.split sum.split)

lemma connect_failure:
  "db_connections s db_name = None \<Longrightarrow> connect lib (world s) db_name f = (w1, Inl e) \<Longrightarrow>
   get_db_connection lib s db_name f = (s\<lparr>world := w1\<rparr>, Inl e)"
  by (simp add: get_db_connection_def)

lemma listdir_failure:
  "db_connections s db_name = None \<Longrightarrow> connect lib (world s) db_name f = (w1, Inr conn) \<Longrightarrow>
   listdir_extensions lib w1 = (w2, Inl e) \<Longrightarrow>
   get_db_connection lib s db_name f
     = (s\<lparr>world := w2, db_connections := (db_connections s)(db_name \<mapsto> conn)\<rparr>, Inl e)"
  by (simp add: get_db_connection_def)

lemma put_result_simps:
  "query_cache (put_result s q t) = query_cache s"
  "query_results (put_result s q t) = (query_results s)(q \<mapsto> t)"
  "world (put_result s q t) = world s"
  "db_connections (put_result s q t) = db_connections s"
  by (simp_all add: put_result_def)

text \<open>The body of \<open>execute_query\<close> once the key is computed and the lookup is skipped or
  returns without a hit, leaving the cache \<open>qc\<close>: the engine is called.\<close>

lemma body_after_lookup:
  assumes "generate_cache_key (md5_hex lib) (json_dumps lib) query params db_name = Inr key"
    and "(force_refresh \<and> qc = query_cache s) \<or>
         (\<not> force_refresh \<and>
          QueryCache_get_call (query_cache s) (t_get_default clk) (t_get_check clk)
            (t_get_hit clk) key = (qc, Inr (r, False)))"
  shows "execute_query_body lib clk s query_id query params db_name cache_ttl force_refresh =
     (case get_db_connection lib (s\<lparr>query_cache := qc\<rparr>) db_name True of
        (s1, Inl e) \<Rightarrow> (s1, Inl e)
      | (s1, Inr conn) \<Rightarrow>
          (case cursor_execute lib (world s1) conn query
                  (if truthy params then params else None) of
             (w2, Inl e) \<Rightarrow> (s1\<lparr>world := w2\<rparr>, Inl e)
           | (w2, Inr cursor) \<Rightarrow>
               (if is_select query
                then (case fetchall lib w2 cursor of
                        (w3, Inl e) \<Rightarrow> (s1\<lparr>world := w3\<rparr>, Inl e)
                      | (w3, Inr results) \<Rightarrow>
                          (let s3 = s1\<lparr>world := w3\<rparr>
                           in case (if \<not> is_metadata query
                                    then QueryCache_set_call (query_cache s3)
                                           (t_set_expiry clk) (t_set_stamp clk)
                                           (t_set_hit clk) key results cache_ttl
                                    else (query_cache s3, Inr ())) of
                                (qc', Inl e) \<Rightarrow> (s3\<lparr>query_cache := qc'\<rparr>, Inl e)
                              | (qc', Inr u) \<Rightarrow>
                                  (put_result (s3\<lparr>query_cache := qc'\<rparr>) query_id
                                     (completed_task (Some results) False
                                        (t_end clk - t_start clk)),
                                   Inr ())))
                else (case commit lib w2 conn of
                        (w3, Inl e) \<Rightarrow> (s1\<lparr>world := w3\<rparr>, Inl e)
                      | (w3, Inr u) \<Rightarrow>
                          (put_result (s1\<lparr>world := w3\<rparr>) query_id
                             (completed_task
                                (Some [[(''rows_affected'', SqlInteger (rowcount lib cursor))]])
                                False (t_end clk - t_start clk)),
                           Inr ())))))"
  using assms by (auto simp: execute_query_body_def)

lemma body_ok_completed:
  assumes "execute_query_body lib clk s query_id query params db_name cache_ttl force_refresh
             = (s', Inr u)"
  shows "\<exists>t. query_results s' query_id = Some t \<and> status t = ''completed''"
  using assms
  by (auto simp: execute_query_body_def Let_def put_result_simps completed_task_def
      split: prod.splits sum.splits if_splits)

text \<open>\<open>execute_query\<close> always leaves a terminal entry under the identifier.\<close>

lemma execute_query_terminal:
  "\<exists>t. query_results (execute_query lib clk s query_id query params db_name cache_ttl
                         force_refresh) query_id = Some t
       \<and> (status t = ''completed'' \<or> status t = ''error'')"
proof (cases "execute_query_body lib clk s query_id query params db_name cache_ttl force_refresh")
  case (Pair s' r)
  show ?thesis
  proof (cases r)
    case (Inl e)
    then show ?thesis using Pair
      by (simp add: execute_query_def put_result_simps error_task_def)
  next
    case (Inr u)
    then show ?thesis
      using Pair body_ok_completed[of lib clk s query_id query params db_name cache_ttl
          force_refresh s' u]
      by (auto simp: execute_query_def)
  qed
qed

lemma pow_gap: "(2::int) ^ 65 \<le> 2 ^ 1024 - 2 ^ 970"
proof -
  have "(2::int) ^ 1024 = 2 ^ 970 * 2 ^ 54" by (simp only: power_add[symmetric]) simp
  then have "(2::int) ^ 1024 - 2 ^ 970 = 2 ^ 970 * (2 ^ 54 - 1)" by (simp only: right_diff_distrib mult_1_right)
  moreover have "(2::int) ^ 65 \<le> 2 ^ 970" by (rule power_increasing) simp_all
  moreover have "(1::int) \<le> 2 ^ 54 - 1" by simp
  moreover have "(0::int) \<le> 2 ^ 970" by simp
  ultimately show ?thesis
    using mult_left_mono[of 1 "2 ^ 54 - 1" "(2::int) ^ 970"] by simp
qed

lemma int_fits_in_float: "\<bar>n\<bar> < 2 ^ 64 \<Longrightarrow> \<not> int_too_large_for_float n"
proof -
  assume a: "\<bar>n\<bar> < 2 ^ 64"
  have "(2::int) ^ 64 \<le> 2 ^ 65" by (rule power_increasing) simp_all
  then have "\<bar>n\<bar> < 2 ^ 1024 - 2 ^ 970" using a pow_gap by linarith
  then show ?thesis by (simp only: int_too_large_for_float_def not_le)
qed

lemma stub_ttl_fits: "\<not> int_too_large_for_float 300"
  by (rule int_fits_in_float) simp

lemma huge_ttl_overflows: "int_too_large_for_float (2 ^ 1024)"
proof -
  have "(0::int) \<le> 2 ^ 970" by simp
  moreover have "\<bar>(2::int) ^ 1024\<bar> = 2 ^ 1024" by (rule abs_of_nonneg) simp
  ultimately have "(2::int) ^ 1024 - 2 ^ 970 \<le> \<bar>2 ^ 1024\<bar>" by linarith
  then show ?thesis by (simp only: int_too_large_for_float_def)
qed

lemmas cache_call_defs = QueryCache_get_call_def QueryCache_set_call_def OverflowError_def

lemmas exec_defs = execute_query_def execute_query_body_def get_db_connection_def
  put_result_def completed_task_def error_task_def pending_task_def app_init_def
  generate_cache_key_def params_str_def stub_library_def stub_clock_def truthy_def
  run_query_def make_response_def get_query_status_def

lemma is_select_examples:
  "is_select ''SELECT 1''" "\<not> is_metadata ''SELECT 1''"
  "is_select ''select 1 --:delete from t''" "\<not> is_metadata ''select 1 --:delete from t''"
  "\<not> is_select ''DELETE FROM t''"
  by code_simp+

lemma key_data_examples:
  "key_data ''default'' ''SELECT 1'' [] = ''default:select 1:''"
  "key_data ''default'' ''DELETE FROM t'' [] = ''default:delete from t:''"
  "key_data ''a'' ''select 1 --:delete from t'' [] = ''a:select 1 --:delete from t:''"
  "key_data ''a:select 1 --'' ''DELETE FROM t'' [] = ''a:select 1 --:delete from t:''"
  by code_simp+

subsection \<open>Submission waits for execution\<close>

text \<open>
  Claim C1: \<open>submit\<close> returns at once with the Task pending, and a \<open>status(id)\<close> call
  right after it may still see \<open>pending\<close>. In the code \<open>run_query\<close> awaits
  \<open>execute_query\<close> and builds its response from the entry that \<open>execute_query\<close> wrote:
  for every submission the response carries that entry, whose status is \<open>completed\<close> or
  \<open>error\<close>, and \<open>get_query_status\<close> right after it returns the same entry, never
  \<open>pending\<close>.
\<close>

theorem run_query_returns_terminal_task:
  "\<exists>t. query_results (snd (run_query lib clk s query_id query params db_name cache_ttl
                              force_refresh)) query_id = Some t
     \<and> fst (run_query lib clk s query_id query params db_name cache_ttl force_refresh)
         = Some (make_response query_id t)
     \<and> get_query_status (snd (run_query lib clk s query_id query params db_name cache_ttl
                                 force_refresh)) query_id
         = Inr (make_response query_id t)
     \<and> (status t = ''completed'' \<or> status t = ''error'') \<and> status t \<noteq> ''pending''"
proof -
  obtain t where t:
    "query_results (execute_query lib clk (put_result s query_id pending_task) query_id query
                      params db_name cache_ttl force_refresh) query_id = Some t"
    "status t = ''completed'' \<or> status t = ''error''"
    using execute_query_terminal by blast
  then show ?thesis
    by (auto simp: run_query_def Let_def get_query_status_def)
qed

text \<open>A first submission of \<open>SELECT 1\<close>: the response of \<open>run_query\<close> is already
  \<open>completed\<close> and carries the row; it is not \<open>pending\<close>.\<close>

theorem run_query_response_not_pending:
  "fst (run_query (stub_library None) (stub_clock 10) (app_init 1000 300 [])
          ''q1'' ''SELECT 1'' None ''default'' None False)
     = Some \<lparr>r_id = ''q1'', r_status = ''completed'', r_result = Some [[(''1'', SqlInteger 1)]],
             r_error = None, r_cached = False, r_execution_time = Some 1\<rparr> \<and>
   map_option r_status (fst (run_query (stub_library None) (stub_clock 10) (app_init 1000 300 [])
          ''q1'' ''SELECT 1'' None ''default'' None False)) \<noteq> Some ''pending''"
  by (simp add: exec_defs cache_defs cache_call_defs stub_ttl_fits is_select_examples
      key_data_examples)

subsection \<open>Writes\<close>

text \<open>
  A statement that is not a read and that reaches the engine, that is, with
  \<open>force_refresh\<close> or with no entry under its key: the cache after the call is the cache
  before it, whatever the engine does; and when the connection, \<open>cursor.execute\<close> and
  \<open>commit\<close> succeed, the state is the one after the commit with the \<open>rows_affected\<close>
  entry written, and the world is the one that \<open>commit\<close> left.
\<close>

lemma write_reaching_engine:
  assumes "\<not> is_select query"
    and "generate_cache_key (md5_hex lib) (json_dumps lib) query params db_name = Inr key"
    and "force_refresh \<or> \<not> has_key (cache (query_cache s)) key"
  shows "query_cache (execute_query lib clk s query_id query params db_name cache_ttl
                        force_refresh) = query_cache s \<and>
         (get_db_connection lib s db_name True = (s1, Inr conn) \<longrightarrow>
          cursor_execute lib (world s1) conn query (if truthy params then params else None)
            = (w2, Inr cursor) \<longrightarrow>
          commit lib w2 conn = (w3, Inr u) \<longrightarrow>
            execute_query lib clk s query_id query params db_name cache_ttl force_refresh =
              put_result (s1\<lparr>world := w3\<rparr>) query_id
                (completed_task (Some [[(''rows_affected'', SqlInteger (rowcount lib cursor))]])
                                False (t_end clk - t_start clk)))"
proof -
  have miss: "(force_refresh \<and> query_cache s = query_cache s) \<or>
         (\<not> force_refresh \<and>
          QueryCache_get_call (query_cache s) (t_get_default clk) (t_get_check clk)
            (t_get_hit clk) key = (query_cache s, Inr (None, False)))"
    using assms(3) by (auto simp: get_call_absent)
  note b = body_after_lookup[OF assms(2) miss, of query_id cache_ttl]
  obtain s1' r' where g: "get_db_connection lib s db_name True = (s1', r')"
    by (cases "get_db_connection lib s db_name True")
  have f: "query_cache s1' = query_cache s"
    using get_db_connection_frame(1)[of lib s db_name True] g by simp
  have "query_cache (execute_query lib clk s query_id query params db_name cache_ttl
                        force_refresh) = query_cache s"
    using assms(1) g f
    by (simp add: execute_query_def b put_result_simps split: sum.split prod.split)
  moreover have "execute_query lib clk s query_id query params db_name cache_ttl force_refresh =
              put_result (s1\<lparr>world := w3\<rparr>) query_id
                (completed_task (Some [[(''rows_affected'', SqlInteger (rowcount lib cursor))]])
                                False (t_end clk - t_start clk))"
    if "get_db_connection lib s db_name True = (s1, Inr conn)"
      "cursor_execute lib (world s1) conn query (if truthy params then params else None)
            = (w2, Inr cursor)"
      "commit lib w2 conn = (w3, Inr u)"
    using that assms(1) by (simp add: execute_query_def b)
  ultimately show ?thesis by blast
qed

text \<open>
  Claim C6: a submission whose statement is a write commits the change, never inserts or
  updates a cache entry, and ends as \<open>completed\<close> with the single row
  \<open>{"rows_affected": n}\<close>. \<open>execute_query\<close> looks the key up before it reads the
  statement, and the key text \<open>db_name:query:params\<close> does not delimit the database name
  (no check of the name is made on this path). The read \<open>select 1 --:delete from t\<close> on
  database \<open>a\<close> and the write \<open>DELETE FROM t\<close> on the database named \<open>a:select 1 --\<close>
  give MD5 the same text. After the read, the write is answered from the cache: the
  entry's hit count goes from 1 to 2 and its last hit time changes, the engine is not
  called (no \<open>execute\<close>, no \<open>commit\<close> in the log), and the Task is \<open>completed\<close> with
  \<open>cached = True\<close> and the row of the read instead of \<open>rows_affected\<close>.
\<close>

theorem write_with_colliding_key_served_from_cache:
  "\<not> is_select ''DELETE FROM t'' \<and>
   key_data ''a:select 1 --'' ''DELETE FROM t'' [] = key_data ''a'' ''select 1 --:delete from t'' [] \<and>
   map (\<lambda>(k, item). (k, hits item, last_hit_time item)) (cache (query_cache collision_first))
     = [(''a:select 1 --:delete from t:'', 1, 10)] \<and>
   map (\<lambda>(k, item). (k, hits item, last_hit_time item)) (cache (query_cache collision_second))
     = [(''a:select 1 --:delete from t:'', 2, 20)] \<and>
   query_cache collision_second \<noteq> query_cache collision_first \<and>
   world collision_first = [''connect'', ''execute''] \<and>
   world collision_second = [''connect'', ''execute''] \<and>
   query_results collision_second ''q2''
     = Some \<lparr>status = ''completed'', task_result = Some [[(''1'', SqlInteger 1)]],
             task_error = None, cached = Some True, execution_time = Some 0\<rparr>"
proof -
  have first: "collision_first =
     \<lparr>query_cache =
        \<lparr>cache = [(''a:select 1 --:delete from t:'',
                    \<lparr>result = [[(''1'', SqlInteger 1)]], timestamp = 10, hits = 1,
                     last_hit_time = 10\<rparr>)],
         expiration_times = [(''a:select 1 --:delete from t:'', 310)],
         lru_keys = [''a:select 1 --:delete from t:''],
         max_cache_size = 1000, default_ttl = 300\<rparr>,
      query_results = [''q1'' \<mapsto> completed_task (Some [[(''1'', SqlInteger 1)]]) False 1],
      db_connections = [''a'' \<mapsto> ''a''], db_extensions = [''a'' \<mapsto> []],
      world = [''connect'', ''execute'']\<rparr>"
    by (simp add: collision_first_def exec_defs cache_defs cache_call_defs stub_ttl_fits
        is_select_examples key_data_examples)
  have second: "collision_second =
     \<lparr>query_cache =
        \<lparr>cache = [(''a:select 1 --:delete from t:'',
                    \<lparr>result = [[(''1'', SqlInteger 1)]], timestamp = 10, hits = 2,
                     last_hit_time = 20\<rparr>)],
         expiration_times = [(''a:select 1 --:delete from t:'', 310)],
         lru_keys = [''a:select 1 --:delete from t:''],
         max_cache_size = 1000, default_ttl = 300\<rparr>,
      query_results = [''q1'' \<mapsto> completed_task (Some [[(''1'', SqlInteger 1)]]) False 1,
                       ''q2'' \<mapsto> completed_task (Some [[(''1'', SqlInteger 1)]]) True 0],
      db_connections = [''a'' \<mapsto> ''a''], db_extensions = [''a'' \<mapsto> []],
      world = [''connect'', ''execute'']\<rparr>"
    unfolding collision_second_def first
    by (simp add: exec_defs cache_defs cache_call_defs stub_ttl_fits is_select_examples
        key_data_examples)
  show ?thesis
    unfolding first second
    by (simp add: is_select_examples key_data_examples completed_task_def)
qed

subsection \<open>Failures\<close>

text \<open>An exception of the body becomes the error entry, and \<open>run_query\<close> returns it as a
  response.\<close>

lemma body_failure_reported:
  assumes "snd (execute_query_body lib clk (put_result s query_id pending_task) query_id query
                  params db_name cache_ttl force_refresh) = Inl e"
  shows "error_reported (run_query lib clk s query_id query params db_name cache_ttl
                           force_refresh) query_id e (t_end clk - t_start clk)"
proof -
  obtain s' where "execute_query_body lib clk (put_result s query_id pending_task) query_id
                     query params db_name cache_ttl force_refresh = (s', Inl e)"
    using assms
    by (cases "execute_query_body lib clk (put_result s query_id pending_task) query_id
                 query params db_name cache_ttl force_refresh") simp
  then show ?thesis
    by (simp add: error_reported_def run_query_def Let_def execute_query_def put_result_simps
        make_response_def error_task_def get_query_status_def)
qed

text \<open>
  Claim C7: when the execution of a submission fails, for whatever reason, the failure is
  recorded in the Task as the terminal \<open>error\<close> state with the text of the exception and
  the time elapsed since \<open>start_time\<close>, and no exception reaches the caller of the
  submission. The calls that \<open>execute_query\<close> makes are the key computation, the cache
  lookup, the connection (\<open>connect\<close> and the listing of the extension files for a new
  handle), \<open>cursor.execute\<close>, then \<open>fetchall\<close> and the cache \<open>set\<close> for a read, or
  \<open>commit\<close> for another statement. Whichever of them raises \<open>e\<close>, after the calls
  before it have returned, \<open>run_query\<close> returns the response with status \<open>error\<close>, the
  text \<open>e\<close> and the elapsed time, the entry of \<open>query_results\<close> is that error entry, and
  \<open>get_query_status\<close> reports it (\<open>error_reported\<close>).
\<close>

theorem failure_recorded_as_error_task:
  "(generate_cache_key (md5_hex lib) (json_dumps lib) query params db_name = Inl e \<longrightarrow>
      error_reported (run_query lib clk s query_id query params db_name cache_ttl force_refresh)
        query_id e (t_end clk - t_start clk)) \<and>
   (generate_cache_key (md5_hex lib) (json_dumps lib) query params db_name = Inr key \<longrightarrow>
      (\<not> force_refresh \<longrightarrow>
       QueryCache_get_call (query_cache s) (t_get_default clk) (t_get_check clk)
         (t_get_hit clk) key = (qc, Inl e) \<longrightarrow>
         error_reported (run_query lib clk s query_id query params db_name cache_ttl
                           force_refresh) query_id e (t_end clk - t_start clk)) \<and>
      ((force_refresh \<and> qc = query_cache s) \<or>
       (\<not> force_refresh \<and>
        QueryCache_get_call (query_cache s) (t_get_default clk) (t_get_check clk)
          (t_get_hit clk) key = (qc, Inr (r, False))) \<longrightarrow>
         (db_connections s db_name = None \<longrightarrow>
          connect lib (world s) db_name True = (w1, Inl e) \<longrightarrow>
            error_reported (run_query lib clk s query_id query params db_name cache_ttl
                              force_refresh) query_id e (t_end clk - t_start clk)) \<and>
         (db_connections s db_name = None \<longrightarrow>
          connect lib (world s) db_name True = (w1, Inr conn') \<longrightarrow>
          listdir_extensions lib w1 = (w1', Inl e) \<longrightarrow>
            error_reported (run_query lib clk s query_id query params db_name cache_ttl
                              force_refresh) query_id e (t_end clk - t_start clk)) \<and>
         (get_db_connection lib ((put_result s query_id pending_task)\<lparr>query_cache := qc\<rparr>)
            db_name True = (s1, Inr conn) \<longrightarrow>
            (cursor_execute lib (world s1) conn query (if truthy params then params else None)
               = (w2, Inl e) \<longrightarrow>
               error_reported (run_query lib clk s query_id query params db_name cache_ttl
                                 force_refresh) query_id e (t_end clk - t_start clk)) \<and>
            (cursor_execute lib (world s1) conn query (if truthy params then params else None)
               = (w2, Inr cursor) \<longrightarrow>
               (is_select query \<longrightarrow> fetchall lib w2 cursor = (w3, Inl e) \<longrightarrow>
                  error_reported (run_query lib clk s query_id query params db_name cache_ttl
                                    force_refresh) query_id e (t_end clk - t_start clk)) \<and>
               (is_select query \<longrightarrow> \<not> is_metadata query \<longrightarrow>
                fetchall lib w2 cursor = (w3, Inr results) \<longrightarrow>
                QueryCache_set_call (query_cache s1) (t_set_expiry clk) (t_set_stamp clk)
                  (t_set_hit clk) key results cache_ttl = (qc', Inl e) \<longrightarrow>
                  error_reported (run_query lib clk s query_id query params db_name cache_ttl
                                    force_refresh) query_id e (t_end clk - t_start clk)) \<and>
               (\<not> is_select query \<longrightarrow> commit lib w2 conn = (w3, Inl e) \<longrightarrow>
                  error_reported (run_query lib clk s query_id query params db_name cache_ttl
                                    force_refresh) query_id e (t_end clk - t_start clk))))))"
proof -
  let ?sp = "put_result s query_id pending_task"
  let ?body = "execute_query_body lib clk ?sp query_id query params db_name cache_ttl
                 force_refresh"
  have key_fails: "snd ?body = Inl e"
    if "generate_cache_key (md5_hex lib) (json_dumps lib) query params db_name = Inl e"
    using that by (simp add: execute_query_body_def)
  have get_fails: "snd ?body = Inl e"
    if "generate_cache_key (md5_hex lib) (json_dumps lib) query params db_name = Inr key"
      "\<not> force_refresh"
      "QueryCache_get_call (query_cache s) (t_get_default clk) (t_get_check clk)
         (t_get_hit clk) key = (qc, Inl e)"
    using that by (simp add: execute_query_body_def put_result_simps)
  have after: "?body =
     (case get_db_connection lib (?sp\<lparr>query_cache := qc\<rparr>) db_name True of
        (s1, Inl e) \<Rightarrow> (s1, Inl e)
      | (s1, Inr conn) \<Rightarrow>
          (case cursor_execute lib (world s1) conn query
                  (if truthy params then params else None) of
             (w2, Inl e) \<Rightarrow> (s1\<lparr>world := w2\<rparr>, Inl e)
           | (w2, Inr cursor) \<Rightarrow>
               (if is_select query
                then (case fetchall lib w2 cursor of
                        (w3, Inl e) \<Rightarrow> (s1\<lparr>world := w3\<rparr>, Inl e)
                      | (w3, Inr results) \<Rightarrow>
                          (let s3 = s1\<lparr>world := w3\<rparr>
                           in case (if \<not> is_metadata query
                                    then QueryCache_set_call (query_cache s3)
                                           (t_set_expiry clk) (t_set_stamp clk)
                                           (t_set_hit clk) key results cache_ttl
                                    else (query_cache s3, Inr ())) of
                                (qc', Inl e) \<Rightarrow> (s3\<lparr>query_cache := qc'\<rparr>, Inl e)
                              | (qc', Inr u) \<Rightarrow>
                                  (put_result (s3\<lparr>query_cache := qc'\<rparr>) query_id
                                     (completed_task (Some results) False
                                        (t_end clk - t_start clk)),
                                   Inr ())))
                else (case commit lib w2 conn of
                        (w3, Inl e) \<Rightarrow> (s1\<lparr>world := w3\<rparr>, Inl e)
                      | (w3, Inr u) \<Rightarrow>
                          (put_result (s1\<lparr>world := w3\<rparr>) query_id
                             (completed_task
                                (Some [[(''rows_affected'', SqlInteger (rowcount lib cursor))]])
                                False (t_end clk - t_start clk)),
                           Inr ())))))"
    if "generate_cache_key (md5_hex lib) (json_dumps lib) query params db_name = Inr key"
      "(force_refresh \<and> qc = query_cache s) \<or>
       (\<not> force_refresh \<and>
        QueryCache_get_call (query_cache s) (t_get_default clk) (t_get_check clk)
          (t_get_hit clk) key = (qc, Inr (r, False)))"
    using that by (intro body_after_lookup) (simp_all add: put_result_simps)
  have connect_fails: "snd ?body = Inl e"
    if "generate_cache_key (md5_hex lib) (json_dumps lib) query params db_name = Inr key"
      "(force_refresh \<and> qc = query_cache s) \<or>
       (\<not> force_refresh \<and>
        QueryCache_get_call (query_cache s) (t_get_default clk) (t_get_check clk)
          (t_get_hit clk) key = (qc, Inr (r, False)))"
      "db_connections s db_name = None" "connect lib (world s) db_name True = (w1, Inl e)"
  proof -
    have "get_db_connection lib (?sp\<lparr>query_cache := qc\<rparr>) db_name True
            = (?sp\<lparr>query_cache := qc, world := w1\<rparr>, Inl e)"
      using that(3,4) by (simp add: connect_failure put_result_simps)
    then show ?thesis by (simp add: after[OF that(1,2)])
  qed
  have listdir_fails: "snd ?body = Inl e"
    if "generate_cache_key (md5_hex lib) (json_dumps lib) query params db_name = Inr key"
      "(force_refresh \<and> qc = query_cache s) \<or>
       (\<not> force_refresh \<and>
        QueryCache_get_call (query_cache s) (t_get_default clk) (t_get_check clk)
          (t_get_hit clk) key = (qc, Inr (r, False)))"
      "db_connections s db_name = None" "connect lib (world s) db_name True = (w1, Inr conn')"
      "listdir_extensions lib w1 = (w1', Inl e)"
  proof -
    have "snd (get_db_connection lib (?sp\<lparr>query_cache := qc\<rparr>) db_name True) = Inl e"
      using that(3,4,5) by (simp add: get_db_connection_def put_result_simps)
    then obtain s1 where
      "get_db_connection lib (?sp\<lparr>query_cache := qc\<rparr>) db_name True = (s1, Inl e)"
      by (cases "get_db_connection lib (?sp\<lparr>query_cache := qc\<rparr>) db_name True") simp
    then show ?thesis by (simp add: after[OF that(1,2)])
  qed
  have later: "snd ?body = Inl e"
    if "generate_cache_key (md5_hex lib) (json_dumps lib) query params db_name = Inr key"
      "(force_refresh \<and> qc = query_cache s) \<or>
       (\<not> force_refresh \<and>
        QueryCache_get_call (query_cache s) (t_get_default clk) (t_get_check clk)
          (t_get_hit clk) key = (qc, Inr (r, False)))"
      "get_db_connection lib (?sp\<lparr>query_cache := qc\<rparr>) db_name True = (s1, Inr conn)"
      "cursor_execute lib (world s1) conn query (if truthy params then params else None)
         = (w2, Inl e) \<or>
       (cursor_execute lib (world s1) conn query (if truthy params then params else None)
          = (w2, Inr cursor) \<and>
        ((is_select query \<and> fetchall lib w2 cursor = (w3, Inl e)) \<or>
         (is_select query \<and> \<not> is_metadata query \<and> fetchall lib w2 cursor = (w3, Inr results) \<and>
          QueryCache_set_call (query_cache s1) (t_set_expiry clk) (t_set_stamp clk)
            (t_set_hit clk) key results cache_ttl = (qc', Inl e)) \<or>
         (\<not> is_select query \<and> commit lib w2 conn = (w3, Inl e))))"
    using that(3,4) by (auto simp: after[OF that(1,2)])
  show ?thesis
  proof (intro conjI impI body_failure_reported)
    assume "generate_cache_key (md5_hex lib) (json_dumps lib) query params db_name = Inl e"
    then show "snd ?body = Inl e" by (rule key_fails)
  next
    assume "generate_cache_key (md5_hex lib) (json_dumps lib) query params db_name = Inr key"
      "\<not> force_refresh"
      "QueryCache_get_call (query_cache s) (t_get_default clk) (t_get_check clk)
         (t_get_hit clk) key = (qc, Inl e)"
    then show "snd ?body = Inl e" by (rule get_fails)
  next
    assume "generate_cache_key (md5_hex lib) (json_dumps lib) query params db_name = Inr key"
      "(force_refresh \<and> qc = query_cache s) \<or>
       (\<not> force_refresh \<and>
        QueryCache_get_call (query_cache s) (t_get_default clk) (t_get_check clk)
          (t_get_hit clk) key = (qc, Inr (r, False)))"
      "db_connections s db_name = None" "connect lib (world s) db_name True = (w1, Inl e)"
    then show "snd ?body = Inl e" by (rule connect_fails)
  next
    assume "generate_cache_key (md5_hex lib) (json_dumps lib) query params db_name = Inr key"
      "(force_refresh \<and> qc = query_cache s) \<or>
       (\<not> force_refresh \<and>
        QueryCache_get_call (query_cache s) (t_get_default clk) (t_get_check clk)
          (t_get_hit clk) key = (qc, Inr (r, False)))"
      "db_connections s db_name = None" "connect lib (world s) db_name True = (w1, Inr conn')"
      "listdir_extensions lib w1 = (w1', Inl e)"
    then show "snd ?body = Inl e" by (rule listdir_fails)
  next
    assume a: "generate_cache_key (md5_hex lib) (json_dumps lib) query params db_name = Inr key"
      "(force_refresh \<and> qc = query_cache s) \<or>
       (\<not> force_refresh \<and>
        QueryCache_get_call (query_cache s) (t_get_default clk) (t_get_check clk)
          (t_get_hit clk) key = (qc, Inr (r, False)))"
      "get_db_connection lib (?sp\<lparr>query_cache := qc\<rparr>) db_name True = (s1, Inr conn)"
      and b: "cursor_execute lib (world s1) conn query (if truthy params then params else None)
         = (w2, Inl e)"
    show "snd ?body = Inl e" by (rule later[OF a]) (simp only: b simp_thms)
  next
    assume a: "generate_cache_key (md5_hex lib) (json_dumps lib) query params db_name = Inr key"
      "(force_refresh \<and> qc = query_cache s) \<or>
       (\<not> force_refresh \<and>
        QueryCache_get_call (query_cache s) (t_get_default clk) (t_get_check clk)
          (t_get_hit clk) key = (qc, Inr (r, False)))"
      "get_db_connection lib (?sp\<lparr>query_cache := qc\<rparr>) db_name True = (s1, Inr conn)"
      and b: "cursor_execute lib (world s1) conn query (if truthy params then params else None)
         = (w2, Inr cursor)" "is_select query" "fetchall lib w2 cursor = (w3, Inl e)"
    show "snd ?body = Inl e" by (rule later[OF a]) (simp only: b simp_thms)
  next
    assume a: "generate_cache_key (md5_hex lib) (json_dumps lib) query params db_name = Inr key"
      "(force_refresh \<and> qc = query_cache s) \<or>
       (\<not> force_refresh \<and>
        QueryCache_get_call (query_cache s) (t_get_default clk) (t_get_check clk)
          (t_get_hit clk) key = (qc, Inr (r, False)))"
      "get_db_connection lib (?sp\<lparr>query_cache := qc\<rparr>) db_name True = (s1, Inr conn)"
      and b: "cursor_execute lib (world s1) conn query (if truthy params then params else None)
         = (w2, Inr cursor)" "is_select query" "\<not> is_metadata query"
        "fetchall lib w2 cursor = (w3, Inr results)"
        "QueryCache_set_call (query_cache s1) (t_set_expiry clk) (t_set_stamp clk)
            (t_set_hit clk) key results cache_ttl = (qc', Inl e)"
    show "snd ?body = Inl e" by (rule later[OF a]) (simp only: b simp_thms)
  next
    assume a: "generate_cache_key (md5_hex lib) (json_dumps lib) query params db_name = Inr key"
      "(force_refresh \<and> qc = query_cache s) \<or>
       (\<not> force_refresh \<and>
        QueryCache_get_call (query_cache s) (t_get_default clk) (t_get_check clk)
          (t_get_hit clk) key = (qc, Inr (r, False)))"
      "get_db_connection lib (?sp\<lparr>query_cache := qc\<rparr>) db_name True = (s1, Inr conn)"
      and b: "cursor_execute lib (world s1) conn query (if truthy params then params else None)
         = (w2, Inr cursor)" "\<not> is_select query" "commit lib w2 conn = (w3, Inl e)"
    show "snd ?body = Inl e" by (rule later[OF a]) (simp only: b simp_thms)
  qed
qed

theorem failure_recorded_as_error_task_witness:
  "cursor_execute (stub_library (Some ''no such table: t'')) [''connect''] ''default''
       ''DELETE FROM t'' None = ([''connect''], Inl ''no such table: t'') \<and>
   error_reported
     (run_query (stub_library (Some ''no such table: t'')) (stub_clock 10) (app_init 1000 300 [])
        ''q1'' ''DELETE FROM t'' None ''default'' None False)
     ''q1'' ''no such table: t'' 1 \<and>
   QueryCache_set_call (QueryCache_init 1000 300) 10 10 10 ''default:select 1:''
       [[(''1'', SqlInteger 1)]] (Some (2 ^ 1024))
     = (QueryCache_init 1000 300, Inl ''int too large to convert to float'') \<and>
   error_reported
     (run_query (stub_library None) (stub_clock 10) (app_init 1000 300 [])
        ''q1'' ''SELECT 1'' None ''default'' (Some (2 ^ 1024)) False)
     ''q1'' ''int too large to convert to float'' 1"
proof -
  let ?s = "app_init 1000 300 [] :: (string list, string) app"
  let ?s1 = "(put_result ?s ''q1'' pending_task)
               \<lparr>query_cache := QueryCache_init 1000 300, world := [''connect''],
                db_connections := [''default'' \<mapsto> ''default''],
                db_extensions := [''default'' \<mapsto> []]\<rparr>"
  have dt: "t_end (stub_clock 10) - t_start (stub_clock 10) = 1" by (simp add: stub_clock_def)
  let ?lf = "stub_library (Some ''no such table: t'')"
  have k1: "generate_cache_key (md5_hex ?lf) (json_dumps ?lf) ''DELETE FROM t'' None ''default''
              = Inr ''default:delete from t:''"
    by (simp add: generate_cache_key_def params_str_def stub_library_def key_data_examples)
  have m1: "(False \<and> QueryCache_init 1000 300 = query_cache ?s) \<or>
       (\<not> False \<and>
        QueryCache_get_call (query_cache ?s) (t_get_default (stub_clock 10))
          (t_get_check (stub_clock 10)) (t_get_hit (stub_clock 10)) ''default:delete from t:''
          = (QueryCache_init 1000 300, Inr (None, False)))"
    by (simp add: app_init_def QueryCache_init_def QueryCache_get_call_def QueryCache_get_def
        has_key_def)
  have c1: "get_db_connection ?lf ((put_result ?s ''q1'' pending_task)
               \<lparr>query_cache := QueryCache_init 1000 300\<rparr>) ''default'' True
              = (?s1, Inr ''default'')"
    by (simp add: get_db_connection_def stub_library_def app_init_def put_result_def)
  have e1: "cursor_execute ?lf (world ?s1) ''default'' ''DELETE FROM t''
              (if truthy None then None else None) = ([''connect''], Inl ''no such table: t'')"
    by (simp add: stub_library_def)
  have r1: "error_reported
     (run_query ?lf (stub_clock 10) ?s ''q1'' ''DELETE FROM t'' None ''default'' None False)
     ''q1'' ''no such table: t'' 1"
    using failure_recorded_as_error_task[THEN conjunct2, THEN mp, OF k1, THEN conjunct2,
        THEN mp, OF m1, THEN conjunct2, THEN conjunct2, THEN mp, OF c1, THEN conjunct1,
        THEN mp, OF e1, of None]
    by (simp only: dt)
  let ?l = "stub_library None"
  have k2: "generate_cache_key (md5_hex ?l) (json_dumps ?l) ''SELECT 1'' None ''default''
              = Inr ''default:select 1:''"
    by (simp add: generate_cache_key_def params_str_def stub_library_def key_data_examples)
  have m2: "(False \<and> QueryCache_init 1000 300 = query_cache ?s) \<or>
       (\<not> False \<and>
        QueryCache_get_call (query_cache ?s) (t_get_default (stub_clock 10))
          (t_get_check (stub_clock 10)) (t_get_hit (stub_clock 10)) ''default:select 1:''
          = (QueryCache_init 1000 300, Inr (None, False)))"
    by (simp add: app_init_def QueryCache_init_def QueryCache_get_call_def QueryCache_get_def
        has_key_def)
  have c2: "get_db_connection ?l ((put_result ?s ''q1'' pending_task)
               \<lparr>query_cache := QueryCache_init 1000 300\<rparr>) ''default'' True
              = (?s1, Inr ''default'')"
    by (simp add: get_db_connection_def stub_library_def app_init_def put_result_def)
  have e2: "cursor_execute ?l (world ?s1) ''default'' ''SELECT 1''
              (if truthy None then None else None) = ([''connect'', ''execute''], Inr ''SELECT 1'')"
    by (simp add: stub_library_def)
  have f2: "fetchall ?l [''connect'', ''execute''] ''SELECT 1''
              = ([''connect'', ''execute''], Inr [[(''1'', SqlInteger 1)]])"
    by (simp add: stub_library_def)
  have o: "QueryCache_set_call (QueryCache_init 1000 300) 10 10 10 ''default:select 1:''
       [[(''1'', SqlInteger 1)]] (Some (2 ^ 1024))
     = (QueryCache_init 1000 300, Inl ''int too large to convert to float'')"
    by (simp add: QueryCache_set_call_def int_too_large_for_float_def OverflowError_def
        QueryCache_init_def)
  have o2: "QueryCache_set_call (query_cache ?s1) (t_set_expiry (stub_clock 10))
       (t_set_stamp (stub_clock 10)) (t_set_hit (stub_clock 10)) ''default:select 1:''
       [[(''1'', SqlInteger 1)]] (Some (2 ^ 1024))
     = (QueryCache_init 1000 300, Inl ''int too large to convert to float'')"
    using o by (simp add: stub_clock_def)
  have r2: "error_reported
     (run_query ?l (stub_clock 10) ?s ''q1'' ''SELECT 1'' None ''default'' (Some (2 ^ 1024)) False)
     ''q1'' ''int too large to convert to float'' 1"
    using failure_recorded_as_error_task[THEN conjunct2, THEN mp, OF k2, THEN conjunct2,
        THEN mp, OF m2, THEN conjunct2, THEN conjunct2, THEN mp, OF c2, THEN conjunct2,
        THEN mp, OF e2, THEN conjunct2, THEN conjunct1, THEN mp,
        OF is_select_examples(1), THEN mp, OF is_select_examples(2), THEN mp, OF f2,
        THEN mp, OF o2]
    by (simp only: dt)
  have e1': "cursor_execute ?lf [''connect''] ''default'' ''DELETE FROM t'' None
               = ([''connect''], Inl ''no such table: t'')"
    by (simp add: stub_library_def)
  from e1' r1 o r2 show ?thesis by (intro conjI)
qed

text \<open>In the second run the cache stays empty: the entry is not stored.\<close>

lemma overflowing_ttl_caches_nothing:
  "cache (query_cache (snd (run_query (stub_library None) (stub_clock 10) (app_init 1000 300 [])
        ''q1'' ''SELECT 1'' None ''default'' (Some (2 ^ 1024)) False))) = []"
  by (simp add: exec_defs cache_call_defs int_too_large_for_float_def is_select_examples
      key_data_examples QueryCache_init_def has_key_def QueryCache_get_def Let_def)

end
